theory Spec2Isabelle
  imports Complex_Main
begin

section \<open>Errors\<close>

text \<open>
  The exceptions the modelled code can raise. \<open>ValueError\<close> comes from
  \<^verbatim>\<open>datetime.strptime\<close> and \<^verbatim>\<open>Path.with_name\<close>, \<open>OverflowError\<close> from
  \<^verbatim>\<open>timedelta\<close> and \<^verbatim>\<open>datetime\<close> arithmetic, \<open>OSError\<close> from reading and
  writing files, \<open>ParseError\<close> from the external GPX parser.
\<close>

datatype error = ValueError | OverflowError | OSError | ParseError

section \<open>The pattern \<^verbatim>\<open>GPX_TIME_PATTERN\<close>\<close>

text \<open>
  A text is a list of characters. Python's \<^verbatim>\<open>str\<close> holds code points; the model
  holds the code points below 256, and among those \<^verbatim>\<open>\d\<close> accepts the ten
  ASCII digits only.

  The pattern
  \<^verbatim>\<open>(<time>)(\d{4}-\d{2}-\d{2}T\d{2}:\d{2}:\d{2}Z)(</time>)\<close>
  has no alternation and no variable repetition: it is a sequence of 33
  one-character classes, each a literal or \<^verbatim>\<open>\d\<close>.
\<close>

datatype cls = Lit char | Digit

definition is_digit :: "char \<Rightarrow> bool" where
  "is_digit c = (c \<in> set ''0123456789'')"

fun cls_ok :: "cls \<Rightarrow> char \<Rightarrow> bool" where
  "cls_ok (Lit a) c = (c = a)"
| "cls_ok Digit c = is_digit c"

definition time_fmt :: "cls list" where
  "time_fmt =
     replicate 4 Digit @ [Lit CHR ''-''] @ replicate 2 Digit @ [Lit CHR ''-''] @
     replicate 2 Digit @ [Lit CHR ''T''] @ replicate 2 Digit @ [Lit CHR '':''] @
     replicate 2 Digit @ [Lit CHR '':''] @ replicate 2 Digit @ [Lit CHR ''Z'']"

definition GPX_TIME_PATTERN :: "cls list" where
  "GPX_TIME_PATTERN = map Lit ''<time>'' @ time_fmt @ map Lit ''</time>''"

text \<open>\<open>match_prefix p s\<close>: the pattern \<open>p\<close> matches at the start of \<open>s\<close>.\<close>

fun match_prefix :: "cls list \<Rightarrow> string \<Rightarrow> bool" where
  "match_prefix [] s = True"
| "match_prefix (p # ps) [] = False"
| "match_prefix (p # ps) (c # cs) = (cls_ok p c \<and> match_prefix ps cs)"

text \<open>The three groups of a match, given the matched text (33 characters).\<close>

definition group1 :: "string \<Rightarrow> string" where
  "group1 m = take 6 m"

definition group2 :: "string \<Rightarrow> string" where
  "group2 m = take 20 (drop 6 m)"

definition group3 :: "string \<Rightarrow> string" where
  "group3 m = drop 26 m"

text \<open>
  \<^verbatim>\<open>GPX_TIME_PATTERN.sub(repl, text)\<close>: scan from the left; at a position where the
  pattern matches, call \<open>repl\<close> on the match and go on behind it; elsewhere copy
  the character. An exception raised by \<open>repl\<close> ends the scan.
\<close>

fun re_sub :: "(string \<Rightarrow> error + string) \<Rightarrow> string \<Rightarrow> error + string" where
  "re_sub repl [] = Inr []"
| "re_sub repl (c # cs) =
     (if match_prefix GPX_TIME_PATTERN (c # cs) then
        (case repl (c # take 32 cs) of
           Inl e \<Rightarrow> Inl e
         | Inr r \<Rightarrow>
             (case re_sub repl (drop 32 cs) of
                Inl e \<Rightarrow> Inl e
              | Inr rest \<Rightarrow> Inr (r @ rest)))
      else
        (case re_sub repl cs of
           Inl e \<Rightarrow> Inl e
         | Inr rest \<Rightarrow> Inr (c # rest)))"

section \<open>Dates, times and durations of Python's \<^verbatim>\<open>datetime\<close>\<close>

text \<open>
  A \<^verbatim>\<open>timedelta\<close> is a whole number of microseconds, normalised to days, seconds
  and microseconds, whose days lie within \<open>\<plusminus>999999999\<close>; building one outside
  raises \<^verbatim>\<open>OverflowError\<close>.
\<close>

type_synonym timedelta = int

definition td_in_range :: "int \<Rightarrow> bool" where
  "td_in_range us = (- 999999999 \<le> us div 86400000000 \<and> us div 86400000000 \<le> 999999999)"

definition new_timedelta :: "int \<Rightarrow> error + timedelta" where
  "new_timedelta us = (if td_in_range us then Inr us else Inl OverflowError)"

text \<open>\<^verbatim>\<open>datetime.timedelta(hours=h)\<close> for an integer \<open>h\<close>.\<close>

definition timedelta_hours :: "int \<Rightarrow> error + timedelta" where
  "timedelta_hours h = new_timedelta (h * 3600000000)"

definition td_add :: "timedelta \<Rightarrow> timedelta \<Rightarrow> error + timedelta" where
  "td_add a b = new_timedelta (a + b)"

text \<open>
  A \<^verbatim>\<open>datetime\<close>: its calendar fields and its \<^verbatim>\<open>tzinfo\<close>, the latter absent
  (naive) or a fixed offset in minutes (\<^verbatim>\<open>timezone.utc\<close> is offset 0).
\<close>

record datetime =
  year :: int
  month :: int
  day :: int
  hour :: int
  minute :: int
  second :: int
  microsecond :: int
  tzinfo :: "int option"

definition is_leap :: "int \<Rightarrow> bool" where
  "is_leap y = (y mod 4 = 0 \<and> (y mod 100 \<noteq> 0 \<or> y mod 400 = 0))"

definition DAYS_IN_MONTH :: "int list" where
  "DAYS_IN_MONTH = [0, 31, 28, 31, 30, 31, 30, 31, 31, 30, 31, 30, 31]"

definition DAYS_BEFORE_MONTH :: "int list" where
  "DAYS_BEFORE_MONTH = [0, 0, 31, 59, 90, 120, 151, 181, 212, 243, 273, 304, 334]"

definition days_in_month :: "int \<Rightarrow> int \<Rightarrow> int" where
  "days_in_month y m =
     (if m = 2 \<and> is_leap y then 29
      else DAYS_IN_MONTH ! nat m)"

definition days_before_year :: "int \<Rightarrow> int" where
  "days_before_year y' = (let y = y' - 1 in y * 365 + y div 4 - y div 100 + y div 400)"

definition days_before_month :: "int \<Rightarrow> int \<Rightarrow> int" where
  "days_before_month y m =
     DAYS_BEFORE_MONTH ! nat m + (if 2 < m \<and> is_leap y then 1 else 0)"

definition ymd2ord :: "int \<Rightarrow> int \<Rightarrow> int \<Rightarrow> int" where
  "ymd2ord y m d = days_before_year y + days_before_month y m + d"

definition MAXORDINAL :: int where
  "MAXORDINAL = 3652059"

text \<open>
  \<^verbatim>\<open>_ord2ymd\<close> of the library: the ordinal day is split by 400-, 100-, 4- and
  1-year cycles, the month is estimated as \<^verbatim>\<open>(n + 50) >> 5\<close> and corrected by
  one when the estimate is too large.
\<close>

definition ord2ymd :: "int \<Rightarrow> int \<times> int \<times> int" where
  "ord2ymd n0 =
     (let n = n0 - 1;
          n400 = n div 146097; n = n mod 146097;
          n100 = n div 36524; n = n mod 36524;
          n4 = n div 1461; n = n mod 1461;
          n1 = n div 365; n = n mod 365;
          y = n400 * 400 + 1 + n100 * 100 + n4 * 4 + n1
      in if n1 = 4 \<or> n100 = 4 then (y - 1, 12, 31)
         else
           (let leapyear = (n1 = 3 \<and> (n4 \<noteq> 24 \<or> n100 = 3));
                m = (n + 50) div 32;
                preceding = DAYS_BEFORE_MONTH ! nat m + (if 2 < m \<and> leapyear then 1 else 0)
            in if preceding > n
               then (let m' = m - 1;
                         preceding' = preceding -
                           (DAYS_IN_MONTH ! nat m' + (if m' = 2 \<and> leapyear then 1 else 0))
                     in (y, m', n - preceding' + 1))
               else (y, m, n - preceding + 1)))"

text \<open>
  \<^verbatim>\<open>datetime + timedelta\<close>: the sum is taken on the ordinal day and the time of
  day; a day outside \<open>1..MAXORDINAL\<close> raises \<^verbatim>\<open>OverflowError\<close>. The
  \<^verbatim>\<open>tzinfo\<close> is kept.
\<close>

definition dt_add :: "datetime \<Rightarrow> timedelta \<Rightarrow> error + datetime" where
  "dt_add t d =
     (let us = ((ymd2ord (year t) (month t) (day t) * 86400 + hour t * 3600 +
                 minute t * 60 + second t) * 1000000 + microsecond t) + d;
          days = us div 86400000000;
          secs = us mod 86400000000 div 1000000
      in if 0 < days \<and> days \<le> MAXORDINAL then
           (case ord2ymd days of (y, m, dd) \<Rightarrow>
              Inr \<lparr>year = y, month = m, day = dd,
                   hour = secs div 3600, minute = secs mod 3600 div 60,
                   second = secs mod 60, microsecond = us mod 1000000,
                   tzinfo = tzinfo t\<rparr>)
         else Inl OverflowError)"

section \<open>\<^verbatim>\<open>strptime\<close> and \<^verbatim>\<open>strftime\<close> with the format \<^verbatim>\<open>%Y-%m-%dT%H:%M:%SZ\<close>\<close>

definition digit_val :: "char \<Rightarrow> int" where
  "digit_val c = int (of_char c) - 48"

definition int_of_digits :: "string \<Rightarrow> int" where
  "int_of_digits s = foldl (\<lambda>a c. 10 * a + digit_val c) 0 s"

text \<open>
  \<^verbatim>\<open>datetime.strptime(s, "%Y-%m-%dT%H:%M:%SZ")\<close> on a string of the shape of the
  pattern's second group, the only strings \<^verbatim>\<open>_replace\<close> passes. On such a string
  every directive takes exactly its digits (a one-digit alternative would leave
  a digit where the format has a literal), so the library's three checks are
  \<^item> the directives' own ranges: month 01..12, day 01..31, hour 00..23,
    minute 00..59, second 00..61;
  \<^item> \<^verbatim>\<open>date(year, month, day)\<close>: year 1..9999 and a day the month has;
  \<^item> the \<^verbatim>\<open>datetime\<close> constructor: second 0..59.
  Each failure is a \<^verbatim>\<open>ValueError\<close>. A string of another shape is never passed;
  the model gives it \<^verbatim>\<open>ValueError\<close> too and says nothing about the library
  there.
\<close>

definition strptime :: "string \<Rightarrow> error + datetime" where
  "strptime s =
     (if length s = 20 \<and> match_prefix time_fmt s then
        (let y = int_of_digits (take 4 s);
             m = int_of_digits (take 2 (drop 5 s));
             d = int_of_digits (take 2 (drop 8 s));
             H = int_of_digits (take 2 (drop 11 s));
             M = int_of_digits (take 2 (drop 14 s));
             S = int_of_digits (take 2 (drop 17 s))
         in if (1 \<le> m \<and> m \<le> 12 \<and> 1 \<le> d \<and> d \<le> 31 \<and> H \<le> 23 \<and> M \<le> 59 \<and> S \<le> 61) \<and>
               (1 \<le> y \<and> y \<le> 9999 \<and> d \<le> days_in_month y m) \<and>
               S \<le> 59
            then Inr \<lparr>year = y, month = m, day = d, hour = H, minute = M, second = S,
                      microsecond = 0, tzinfo = None\<rparr>
            else Inl ValueError)
      else Inl ValueError)"

text \<open>Decimal rendering of a natural number, and zero padding on the left.\<close>

definition digit_chr :: "nat \<Rightarrow> char" where
  "digit_chr n = ''0123456789'' ! n"

fun str_nat :: "nat \<Rightarrow> string" where
  "str_nat n = (if n < 10 then [digit_chr n] else str_nat (n div 10) @ [digit_chr (n mod 10)])"

declare str_nat.simps [simp del]

definition zfill :: "nat \<Rightarrow> string \<Rightarrow> string" where
  "zfill w s = replicate (w - length s) CHR ''0'' @ s"

text \<open>
  \<^verbatim>\<open>strftime('%Y-%m-%dT%H:%M:%SZ')\<close> as the library reference documents it:
  the year zero-padded to four digits, the other fields to two. (A C library
  that does not pad \<^verbatim>\<open>%Y\<close> renders the years below 1000 shorter; the model
  follows the documented form.)
\<close>

definition strftime :: "datetime \<Rightarrow> string" where
  "strftime t =
     zfill 4 (str_nat (nat (year t))) @ ''-'' @ zfill 2 (str_nat (nat (month t))) @ ''-'' @
     zfill 2 (str_nat (nat (day t))) @ ''T'' @ zfill 2 (str_nat (nat (hour t))) @ '':'' @
     zfill 2 (str_nat (nat (minute t))) @ '':'' @ zfill 2 (str_nat (nat (second t))) @ ''Z''"

section \<open>\<^verbatim>\<open>shift_gpx_times\<close>\<close>

text \<open>The callback \<^verbatim>\<open>_replace\<close> of \<^verbatim>\<open>shift_gpx_times\<close>, on the matched text.\<close>

definition sub_replace :: "timedelta \<Rightarrow> string \<Rightarrow> error + string" where
  "sub_replace shift_delta m =
     (case strptime (group2 m) of
        Inl e \<Rightarrow> Inl e
      | Inr timestamp \<Rightarrow>
          (case dt_add (timestamp\<lparr>tzinfo := Some 0\<rparr>) shift_delta of
             Inl e \<Rightarrow> Inl e
           | Inr timestamp' \<Rightarrow> Inr (group1 m @ strftime timestamp' @ group3 m)))"

text \<open>
  The guard \<^verbatim>\<open>not shift_delta or shift_delta == timedelta(0)\<close> holds exactly for
  the zero duration.
\<close>

definition shift_gpx_times :: "string \<Rightarrow> timedelta \<Rightarrow> error + string" where
  "shift_gpx_times gpx_text shift_delta =
     (if shift_delta = 0 then Inr gpx_text
      else re_sub (sub_replace shift_delta) gpx_text)"

section \<open>Paths: \<^verbatim>\<open>pathlib.Path\<close> on POSIX\<close>

text \<open>
  A path is its root (empty for a relative path, one slash, or two slashes for
  exactly two leading slashes) and its parts. Two paths are equal when both agree.
\<close>

record path =
  root :: string
  parts :: "string list"

text \<open>\<^verbatim>\<open>str.split('/')\<close>.\<close>

fun split_sep :: "string \<Rightarrow> string list" where
  "split_sep [] = [[]]"
| "split_sep (c # cs) =
     (if c = CHR ''/'' then [] # split_sep cs
      else (case split_sep cs of x # xs \<Rightarrow> (c # x) # xs | [] \<Rightarrow> [[c]]))"

definition splitroot :: "string \<Rightarrow> string \<times> string" where
  "splitroot p =
     (if take 1 p \<noteq> ''/'' then ([], p)
      else if take 1 (drop 1 p) \<noteq> ''/'' \<or> take 1 (drop 2 p) = ''/'' then (''/'', drop 1 p)
      else (take 2 p, drop 2 p))"

text \<open>\<^verbatim>\<open>Path(s)\<close>: empty components and \<^verbatim>\<open>.\<close> components are dropped.\<close>

definition Path :: "string \<Rightarrow> path" where
  "Path s =
     (case splitroot s of (rt, rel) \<Rightarrow>
        \<lparr>root = rt, parts = filter (\<lambda>x. x \<noteq> [] \<and> x \<noteq> ''.'') (split_sep rel)\<rparr>)"

definition is_absolute :: "path \<Rightarrow> bool" where
  "is_absolute p = (root p \<noteq> [])"

definition path_parent :: "path \<Rightarrow> path" where
  "path_parent p = (if parts p = [] then p else p\<lparr>parts := butlast (parts p)\<rparr>)"

definition path_name :: "path \<Rightarrow> string" where
  "path_name p = (if parts p = [] then [] else last (parts p))"

text \<open>\<^verbatim>\<open>s.rfind(c)\<close>: the last index of \<open>c\<close> in \<open>s\<close>, or \<open>-1\<close>.\<close>

definition rfind :: "char \<Rightarrow> string \<Rightarrow> int" where
  "rfind c s =
     (if c \<in> set s then int (length s) - 1 - int (length (takeWhile (\<lambda>x. x \<noteq> c) (rev s)))
      else - 1)"

definition path_suffix :: "path \<Rightarrow> string" where
  "path_suffix p =
     (let n = path_name p; i = rfind CHR ''.'' n
      in if 0 < i \<and> i < int (length n) - 1 then drop (nat i) n else [])"

definition path_stem :: "path \<Rightarrow> string" where
  "path_stem p =
     (let n = path_name p; i = rfind CHR ''.'' n
      in if 0 < i \<and> i < int (length n) - 1 then take (nat i) n else n)"

text \<open>
  \<^verbatim>\<open>p.with_name(n)\<close> raises \<^verbatim>\<open>ValueError\<close> when \<open>p\<close> has no name or \<open>n\<close> is not a
  single component.
\<close>

definition with_name :: "path \<Rightarrow> string \<Rightarrow> error + path" where
  "with_name p n =
     (if path_name p = [] then Inl ValueError
      else if n = [] \<or> CHR ''/'' \<in> set n \<or> n = ''.'' then Inl ValueError
      else Inr (p\<lparr>parts := butlast (parts p) @ [n]\<rparr>))"

text \<open>\<^verbatim>\<open>p / q\<close>: an absolute \<open>q\<close> replaces \<open>p\<close>.\<close>

definition joinpath :: "path \<Rightarrow> path \<Rightarrow> path" where
  "joinpath p q = (if root q \<noteq> [] then q else p\<lparr>parts := parts p @ parts q\<rparr>)"

section \<open>The world outside the program\<close>

text \<open>
  What the program reads from its environment: the variable \<^verbatim>\<open>HOME\<close>, the
  password database (the current user's home directory and the one of each user
  name), the current working directory (an absolute path), the files by
  absolute path, and which paths can be written.
\<close>

record world =
  environ_HOME :: "string option"
  pw_dir_uid :: "string option"
  pw_dir_name :: "string \<Rightarrow> string option"
  cwd :: path
  files :: "path \<Rightarrow> string option"
  writable :: "path \<Rightarrow> bool"

definition rstrip_sep :: "string \<Rightarrow> string" where
  "rstrip_sep s = rev (dropWhile (\<lambda>c. c = CHR ''/'') (rev s))"

text \<open>
  \<^verbatim>\<open>os.path.expanduser\<close>: a leading \<^verbatim>\<open>~\<close> or \<^verbatim>\<open>~user\<close> is replaced by that user's
  home directory when it is known; any other string is returned as it is.
\<close>

definition expanduser :: "world \<Rightarrow> string \<Rightarrow> string" where
  "expanduser w p =
     (if take 1 p \<noteq> ''~'' then p
      else
        (let i = 1 + length (takeWhile (\<lambda>c. c \<noteq> CHR ''/'') (drop 1 p));
             userhome =
               (if i = 1 then
                  (case environ_HOME w of Some h \<Rightarrow> Some h | None \<Rightarrow> pw_dir_uid w)
                else pw_dir_name w (take (i - 1) (drop 1 p)))
         in case userhome of
              None \<Rightarrow> p
            | Some h \<Rightarrow>
                (let r = rstrip_sep h @ drop i p in if r = [] then ''/'' else r)))"

text \<open>The operating system resolves a relative path against the working directory.\<close>

definition os_abs :: "world \<Rightarrow> path \<Rightarrow> path" where
  "os_abs w p = (if is_absolute p then p else joinpath (cwd w) p)"

definition read_text :: "path \<Rightarrow> world \<Rightarrow> error + string" where
  "read_text p w = (case files w (os_abs w p) of None \<Rightarrow> Inl OSError | Some t \<Rightarrow> Inr t)"

text \<open>
  \<^verbatim>\<open>Path.write_text\<close>: the file holds the text afterwards, or the call raises
  (taken to happen on opening the file, before anything is written).
\<close>

definition write_text :: "path \<Rightarrow> string \<Rightarrow> world \<Rightarrow> error + world" where
  "write_text p t w =
     (if writable w (os_abs w p) then Inr (w\<lparr>files := (files w)(os_abs w p \<mapsto> t)\<rparr>)
      else Inl OSError)"

section \<open>The structural parse\<close>

text \<open>
  The objects of the external GPX parser, with the attributes the program reads.
  Coordinates and elevations are floating-point numbers that the program only
  copies.
\<close>

type_synonym pyfloat = real

record gpx_point =
  latitude :: pyfloat
  longitude :: pyfloat
  elevation :: "pyfloat option"
  time :: "datetime option"

record gpx_track_segment =
  seg_points :: "gpx_point list"

record gpx_track =
  trk_name :: "string option"
  segments :: "gpx_track_segment list"

record gpx_waypoint =
  wpt_point :: gpx_point
  wpt_name :: "string option"

record gpx_route =
  rte_name :: "string option"
  rte_points :: "gpx_point list"

record gpx =
  creator :: "string option"
  version :: "string option"
  tracks :: "gpx_track list"
  waypoints :: "gpx_waypoint list"
  routes :: "gpx_route list"

text \<open>A loop that builds a list and stops at the first exception.\<close>

fun map_err :: "('a \<Rightarrow> error + 'b) \<Rightarrow> 'a list \<Rightarrow> error + 'b list" where
  "map_err f [] = Inr []"
| "map_err f (x # xs) =
     (case f x of
        Inl e \<Rightarrow> Inl e
      | Inr y \<Rightarrow> (case map_err f xs of Inl e \<Rightarrow> Inl e | Inr ys \<Rightarrow> Inr (y # ys)))"

text \<open>\<^verbatim>\<open>point.time + shift_delta if point.time else None\<close>\<close>

definition shift_point_time :: "timedelta \<Rightarrow> datetime option \<Rightarrow> error + datetime option" where
  "shift_point_time shift_delta t =
     (case t of
        None \<Rightarrow> Inr None
      | Some t0 \<Rightarrow> (case dt_add t0 shift_delta of Inl e \<Rightarrow> Inl e | Inr t1 \<Rightarrow> Inr (Some t1)))"

definition shift_point :: "timedelta \<Rightarrow> gpx_point \<Rightarrow> error + gpx_point" where
  "shift_point shift_delta point =
     (case shift_point_time shift_delta (time point) of
        Inl e \<Rightarrow> Inl e
      | Inr t \<Rightarrow>
          Inr \<lparr>latitude = latitude point, longitude = longitude point,
               elevation = elevation point, time = t\<rparr>)"

definition shift_segment :: "timedelta \<Rightarrow> gpx_track_segment \<Rightarrow> error + gpx_track_segment" where
  "shift_segment shift_delta segment =
     (case map_err (shift_point shift_delta) (seg_points segment) of
        Inl e \<Rightarrow> Inl e
      | Inr ps \<Rightarrow> Inr \<lparr>seg_points = ps\<rparr>)"

definition shift_track :: "timedelta \<Rightarrow> gpx_track \<Rightarrow> error + gpx_track" where
  "shift_track shift_delta track =
     (case map_err (shift_segment shift_delta) (segments track) of
        Inl e \<Rightarrow> Inl e
      | Inr ss \<Rightarrow> Inr \<lparr>trk_name = trk_name track, segments = ss\<rparr>)"

definition shift_waypoint :: "timedelta \<Rightarrow> gpx_waypoint \<Rightarrow> error + gpx_waypoint" where
  "shift_waypoint shift_delta waypoint =
     (case shift_point shift_delta (wpt_point waypoint) of
        Inl e \<Rightarrow> Inl e
      | Inr p \<Rightarrow> Inr \<lparr>wpt_point = p, wpt_name = wpt_name waypoint\<rparr>)"

definition shift_route :: "timedelta \<Rightarrow> gpx_route \<Rightarrow> error + gpx_route" where
  "shift_route shift_delta route =
     (case map_err (shift_point shift_delta) (rte_points route) of
        Inl e \<Rightarrow> Inl e
      | Inr ps \<Rightarrow> Inr \<lparr>rte_name = rte_name route, rte_points = ps\<rparr>)"

text \<open>\<^verbatim>\<open>GPXShiftApp._apply_shift\<close>: tracks first, then waypoints, then routes.\<close>

definition apply_shift :: "gpx \<Rightarrow> timedelta \<Rightarrow> error + gpx" where
  "apply_shift gpx_data shift_delta =
     (case map_err (shift_track shift_delta) (tracks gpx_data) of
        Inl e \<Rightarrow> Inl e
      | Inr ts \<Rightarrow>
          (case map_err (shift_waypoint shift_delta) (waypoints gpx_data) of
             Inl e \<Rightarrow> Inl e
           | Inr ws \<Rightarrow>
               (case map_err (shift_route shift_delta) (routes gpx_data) of
                  Inl e \<Rightarrow> Inl e
                | Inr rs \<Rightarrow>
                    Inr \<lparr>creator = creator gpx_data, version = version gpx_data,
                         tracks = ts, waypoints = ws, routes = rs\<rparr>)))"

section \<open>The session: \<^verbatim>\<open>GPXShiftApp\<close>\<close>

record session =
  gpx_file_path :: string
  original_gpx_path :: path
  original_gpx_text :: string
  original_gpx :: gpx
  current_gpx :: gpx
  time_shift :: timedelta
  display_utc :: bool

text \<open>
  \<^verbatim>\<open>GPXShiftApp.__init__\<close>. The parser \<^verbatim>\<open>gpxpy.parse\<close> is external: it is the
  parameter \<open>parse\<close>, called once for each of the two structural copies.
\<close>

definition init :: "(string \<Rightarrow> error + gpx) \<Rightarrow> world \<Rightarrow> string \<Rightarrow> error + session" where
  "init parse w file_path =
     (case read_text (Path file_path) w of
        Inl e \<Rightarrow> Inl e
      | Inr text \<Rightarrow>
          (case parse text of
             Inl e \<Rightarrow> Inl e
           | Inr original \<Rightarrow>
               (case parse text of
                  Inl e \<Rightarrow> Inl e
                | Inr current \<Rightarrow>
                    (case timedelta_hours 0 of
                       Inl e \<Rightarrow> Inl e
                     | Inr zero \<Rightarrow>
                         Inr \<lparr>gpx_file_path = file_path,
                              original_gpx_path = Path file_path,
                              original_gpx_text = text,
                              original_gpx = original,
                              current_gpx = current,
                              time_shift = zero,
                              display_utc = False\<rparr>))))"

text \<open>
  \<^verbatim>\<open>GPXShiftApp.shift_time\<close>. A method returns its outcome (an exception or
  nothing) together with the object as the call leaves it: \<^verbatim>\<open>time_shift\<close> is
  assigned before \<^verbatim>\<open>_apply_shift\<close> runs, so an exception raised there leaves the
  new \<^verbatim>\<open>time_shift\<close> with the old \<^verbatim>\<open>current_gpx\<close>.
\<close>

definition shift_time :: "int \<Rightarrow> session \<Rightarrow> (error + unit) \<times> session" where
  "shift_time hours s =
     (case timedelta_hours hours of
        Inl e \<Rightarrow> (Inl e, s)
      | Inr d \<Rightarrow>
          (case td_add (time_shift s) d of
             Inl e \<Rightarrow> (Inl e, s)
           | Inr t \<Rightarrow>
               (let s1 = s\<lparr>time_shift := t\<rparr> in
                case apply_shift (original_gpx s1) (time_shift s1) of
                  Inl e \<Rightarrow> (Inl e, s1)
                | Inr g \<Rightarrow> (Inr (), s1\<lparr>current_gpx := g\<rparr>))))"

definition toggle_display_mode :: "session \<Rightarrow> session" where
  "toggle_display_mode s = s\<lparr>display_utc := \<not> display_utc s\<rparr>"

text \<open>
  \<^verbatim>\<open>int(self.time_shift.total_seconds() // 3600)\<close>. The library computes this on
  floating-point numbers; for a duration of whole seconds, which is all a session
  ever holds, every intermediate value is an integer below \<open>2^53\<close> and the result
  is the floor division below.
\<close>

definition get_shift_hours :: "session \<Rightarrow> int" where
  "get_shift_hours s = time_shift s div 1000000 div 3600"

definition get_default_output_path :: "session \<Rightarrow> error + path" where
  "get_default_output_path s =
     (let hours = get_shift_hours s;
          sign = (if hours \<ge> 0 then ''p'' else ''m'');
          suffix = ''_'' @ sign @ str_nat (nat \<bar>hours\<bar>);
          stem = path_stem (original_gpx_path s);
          extension = path_suffix (original_gpx_path s)
      in with_name (original_gpx_path s) (stem @ suffix @ extension))"

text \<open>
  The local variable \<^verbatim>\<open>output_path\<close> of \<^verbatim>\<open>save_gpx\<close>. The argument is \<open>None\<close> for
  Python's \<^verbatim>\<open>None\<close>; an empty string is as false as \<^verbatim>\<open>None\<close>.
\<close>

definition output_path :: "string option \<Rightarrow> session \<Rightarrow> world \<Rightarrow> error + path" where
  "output_path output_file_path s w =
     (case output_file_path of
        None \<Rightarrow> get_default_output_path s
      | Some f \<Rightarrow>
          if f \<noteq> [] then
            (let candidate_path = Path (expanduser w f) in
             if is_absolute candidate_path then Inr candidate_path
             else if path_parent candidate_path = Path ''.'' then
               Inr (joinpath (path_parent (original_gpx_path s))
                      (Path (path_name candidate_path)))
             else Inr (joinpath (cwd w) candidate_path))
          else get_default_output_path s)"

text \<open>
  \<^verbatim>\<open>GPXShiftApp.save_gpx\<close>: the outcome, the session and the world as the call
  leaves them. The method assigns no attribute of the session.
\<close>

definition save_gpx ::
  "string option \<Rightarrow> session \<Rightarrow> world \<Rightarrow> (error + path) \<times> session \<times> world" where
  "save_gpx output_file_path s w =
     (case output_path output_file_path s w of
        Inl e \<Rightarrow> (Inl e, s, w)
      | Inr p \<Rightarrow>
          (case shift_gpx_times (original_gpx_text s) (time_shift s) of
             Inl e \<Rightarrow> (Inl e, s, w)
           | Inr shifted_text \<Rightarrow>
               (case write_text p shifted_text w of
                  Inl e \<Rightarrow> (Inl e, s, w)
                | Inr w' \<Rightarrow> (Inr p, s, w'))))"


section \<open>Scripts and examples\<close>

text \<open>
  A script as the tests run it: calls of \<^verbatim>\<open>shift_time\<close> in sequence, then
  \<^verbatim>\<open>save_gpx\<close>. An exception that nothing catches ends the script.
\<close>

fun run_adjusts :: "int list \<Rightarrow> session \<Rightarrow> (error + unit) \<times> session" where
  "run_adjusts [] s = (Inr (), s)"
| "run_adjusts (h # hs) s =
     (case shift_time h s of
        (Inl e, s') \<Rightarrow> (Inl e, s')
      | (Inr u, s') \<Rightarrow> run_adjusts hs s')"

definition adjust_then_save ::
  "int list \<Rightarrow> string option \<Rightarrow> session \<Rightarrow> world \<Rightarrow> (error + path) \<times> session \<times> world" where
  "adjust_then_save hs output_file_path s w =
     (case run_adjusts hs s of
        (Inl e, s') \<Rightarrow> (Inl e, s', w)
      | (Inr u, s') \<Rightarrow> save_gpx output_file_path s' w)"

text \<open>A document with one timestamped track point, and its structural parse.\<close>

definition ex_text :: string where
  "ex_text = ''<trkpt><time>2025-01-01T00:00:00Z</time></trkpt>''"

definition ex_gpx :: gpx where
  "ex_gpx =
     \<lparr>creator = Some ''pytest'', version = Some ''1.1'',
      tracks = [\<lparr>trk_name = Some ''Test Track'',
                 segments = [\<lparr>seg_points =
                   [\<lparr>latitude = 0, longitude = 0, elevation = Some 0,
                     time = Some \<lparr>year = 2025, month = 1, day = 1, hour = 0, minute = 0,
                                  second = 0, microsecond = 0, tzinfo = Some 0\<rparr>\<rparr>]\<rparr>]\<rparr>],
      waypoints = [], routes = []\<rparr>"

definition ex_gpx_p3 :: gpx where
  "ex_gpx_p3 =
     \<lparr>creator = Some ''pytest'', version = Some ''1.1'',
      tracks = [\<lparr>trk_name = Some ''Test Track'',
                 segments = [\<lparr>seg_points =
                   [\<lparr>latitude = 0, longitude = 0, elevation = Some 0,
                     time = Some \<lparr>year = 2025, month = 1, day = 1, hour = 3, minute = 0,
                                  second = 0, microsecond = 0, tzinfo = Some 0\<rparr>\<rparr>]\<rparr>]\<rparr>],
      waypoints = [], routes = []\<rparr>"

text \<open>A document without any timestamp.\<close>

definition ex_empty_text :: string where
  "ex_empty_text = ''<gpx></gpx>''"

definition ex_empty_gpx :: gpx where
  "ex_empty_gpx = \<lparr>creator = None, version = None, tracks = [], waypoints = [], routes = []\<rparr>"

definition ex_parse :: "string \<Rightarrow> error + gpx" where
  "ex_parse t =
     (if t = ex_text then Inr ex_gpx
      else if t = ex_empty_text then Inr ex_empty_gpx
      else Inl ParseError)"

text \<open>
  A world with the two documents under \<^verbatim>\<open>/tmp\<close>, the home directory
  \<^verbatim>\<open>/home/u\<close>, the working directory \<^verbatim>\<open>/work\<close>, and a read-only tree \<^verbatim>\<open>/ro\<close>.
\<close>

definition ex_world :: world where
  "ex_world =
     \<lparr>environ_HOME = Some ''/home/u'', pw_dir_uid = None, pw_dir_name = (\<lambda>u. None),
      cwd = Path ''/work'',
      files = [Path ''/tmp/morning_run.gpx'' \<mapsto> ex_text,
               Path ''/tmp/empty.gpx'' \<mapsto> ex_empty_text],
      writable = (\<lambda>p. take 1 (parts p) \<noteq> [''ro''])\<rparr>"

definition ex_session :: session where
  "ex_session =
     \<lparr>gpx_file_path = ''/tmp/morning_run.gpx'',
      original_gpx_path = Path ''/tmp/morning_run.gpx'',
      original_gpx_text = ex_text,
      original_gpx = ex_gpx, current_gpx = ex_gpx,
      time_shift = 0, display_utc = False\<rparr>"

definition ex_session_p3 :: session where
  "ex_session_p3 = snd (shift_time 3 ex_session)"

definition ex_evening_m2 :: session where
  "ex_evening_m2 =
     ex_session\<lparr>gpx_file_path := ''/tmp/evening_run.gpx'',
                original_gpx_path := Path ''/tmp/evening_run.gpx'',
                time_shift := - 7200000000\<rparr>"

text \<open>A session whose text holds a month 13 in an element the parser skips.\<close>

definition ex_malformed_session :: session where
  "ex_malformed_session =
     ex_session\<lparr>original_gpx_text :=
                  ''<extensions>'' @ ''<time>2025-13-01T00:00:00Z</time>'' @ ''</extensions>'',
                time_shift := 3600000000\<rparr>"

definition ex_empty_session :: session where
  "ex_empty_session =
     \<lparr>gpx_file_path = ''/tmp/empty.gpx'',
      original_gpx_path = Path ''/tmp/empty.gpx'',
      original_gpx_text = ex_empty_text,
      original_gpx = ex_empty_gpx, current_gpx = ex_empty_gpx,
      time_shift = 0, display_utc = False\<rparr>"

section \<open>The examples, evaluated\<close>

lemma Path_morning:
  "Path ''/tmp/morning_run.gpx'' = \<lparr>root = ''/'', parts = [''tmp'', ''morning_run.gpx'']\<rparr>"
  by (simp add: Path_def splitroot_def)

lemma Path_empty:
  "Path ''/tmp/empty.gpx'' = \<lparr>root = ''/'', parts = [''tmp'', ''empty.gpx'']\<rparr>"
  by (simp add: Path_def splitroot_def)

lemma ex_init: "init ex_parse ex_world ''/tmp/morning_run.gpx'' = Inr ex_session"
  by (simp add: init_def read_text_def os_abs_def is_absolute_def ex_world_def Path_morning
      Path_empty ex_parse_def timedelta_hours_def new_timedelta_def td_in_range_def
      ex_session_def)

lemma ex_empty_init: "init ex_parse ex_world ''/tmp/empty.gpx'' = Inr ex_empty_session"
  by (simp add: init_def read_text_def os_abs_def is_absolute_def ex_world_def Path_morning
      Path_empty ex_parse_def timedelta_hours_def new_timedelta_def td_in_range_def
      ex_empty_session_def ex_text_def ex_empty_text_def)

lemma ex_shift3:
  "shift_gpx_times ex_text 10800000000 = Inr ''<trkpt><time>2025-01-01T03:00:00Z</time></trkpt>''"
  unfolding ex_text_def by code_simp

lemma ex_dt_add3:
  "dt_add \<lparr>year = 2025, month = 1, day = 1, hour = 0, minute = 0, second = 0,
           microsecond = 0, tzinfo = Some 0\<rparr> 10800000000 =
   Inr \<lparr>year = 2025, month = 1, day = 1, hour = 3, minute = 0, second = 0,
        microsecond = 0, tzinfo = Some 0\<rparr>"
  by (simp add: dt_add_def ymd2ord_def days_before_year_def days_before_month_def
      DAYS_BEFORE_MONTH_def DAYS_IN_MONTH_def is_leap_def MAXORDINAL_def ord2ymd_def Let_def)

lemma ex_apply_shift3: "apply_shift ex_gpx 10800000000 = Inr ex_gpx_p3"
  by (simp add: apply_shift_def ex_gpx_def ex_gpx_p3_def shift_track_def shift_segment_def
      shift_point_def shift_point_time_def ex_dt_add3)

lemma ex_shift_time3:
  "shift_time 3 ex_session =
     (Inr (), ex_session\<lparr>time_shift := 10800000000, current_gpx := ex_gpx_p3\<rparr>)"
  by (simp add: shift_time_def timedelta_hours_def td_add_def new_timedelta_def td_in_range_def
      ex_session_def ex_apply_shift3)

lemma ex_session_p3_eq:
  "ex_session_p3 = ex_session\<lparr>time_shift := 10800000000, current_gpx := ex_gpx_p3\<rparr>"
  by (simp add: ex_session_p3_def ex_shift_time3)

lemma str_nat_small:
  "str_nat 0 = ''0''" "str_nat (Suc 0) = ''1''" "str_nat 2 = ''2''" "str_nat 3 = ''3''"
  by (simp_all add: str_nat.simps digit_chr_def)

lemma ex_default3:
  "get_default_output_path ex_session_p3 = Inr (Path ''/tmp/morning_run_p3.gpx'')"
  by (simp add: ex_session_p3_eq ex_session_def get_default_output_path_def get_shift_hours_def
      Path_def splitroot_def path_stem_def path_suffix_def path_name_def rfind_def with_name_def
      str_nat_small)

section \<open>Paths and file names\<close>

lemma split_sep_no_sep: "CHR ''/'' \<notin> set s \<Longrightarrow> split_sep s = [s]"
  by (induction s) auto

lemma split_sep_parts_no_sep: "x \<in> set (split_sep s) \<Longrightarrow> CHR ''/'' \<notin> set x"
  by (induction s arbitrary: x) (auto split: if_splits list.splits)

lemma Path_parts_no_sep: "x \<in> set (parts (Path s)) \<Longrightarrow> CHR ''/'' \<notin> set x"
  by (auto simp: Path_def split: prod.splits dest: split_sep_parts_no_sep)

lemma path_name_no_sep: "CHR ''/'' \<notin> set (path_name (Path s))"
  using Path_parts_no_sep [of "last (parts (Path s))" s]
  by (auto simp: path_name_def)

lemma path_stem_subset: "set (path_stem p) \<subseteq> set (path_name p)"
  by (auto simp: path_stem_def Let_def dest: in_set_takeD)

lemma path_suffix_subset: "set (path_suffix p) \<subseteq> set (path_name p)"
  by (auto simp: path_suffix_def Let_def dest: in_set_dropD)

lemma Path_single:
  "CHR ''/'' \<notin> set n \<Longrightarrow> n \<noteq> [] \<Longrightarrow> n \<noteq> ''.'' \<Longrightarrow> Path n = \<lparr>root = [], parts = [n]\<rparr>"
  by (cases n) (auto simp: Path_def splitroot_def split_sep_no_sep)

lemma digit_chr_is_digit: "k < 10 \<Longrightarrow> is_digit (digit_chr k)"
  unfolding is_digit_def digit_chr_def by (rule nth_mem) simp

lemma str_nat_digits: "c \<in> set (str_nat n) \<Longrightarrow> is_digit c"
proof (induction n arbitrary: c rule: str_nat.induct)
  case (1 n)
  show ?case
  proof (cases "n < 10")
    case True
    with "1.prems" show ?thesis
      by (simp add: str_nat.simps [of n] digit_chr_is_digit)
  next
    case False
    with "1.prems" have "c \<in> set (str_nat (n div 10)) \<or> c = digit_chr (n mod 10)"
      by (auto simp: str_nat.simps [of n])
    then show ?thesis
    proof
      assume "c \<in> set (str_nat (n div 10))"
      then show ?thesis using "1.IH" False by blast
    next
      assume "c = digit_chr (n mod 10)"
      then show ?thesis using digit_chr_is_digit [of "n mod 10"] by simp
    qed
  qed
qed

lemma str_nat_no_sep: "CHR ''/'' \<notin> set (str_nat n)"
  using str_nat_digits [of "CHR ''/''" n] by (auto simp: is_digit_def)

lemma with_name_join:
  assumes "path_name p \<noteq> []" and "CHR ''/'' \<notin> set n" and "n \<noteq> []" and "n \<noteq> ''.''"
  shows "with_name p n = Inr (joinpath (path_parent p) (Path n))"
  using assms
  by (auto simp: with_name_def Path_single joinpath_def path_parent_def path_name_def)

lemma get_shift_hours_div: "get_shift_hours s = time_shift s div 3600000000"
proof -
  have "time_shift s div 1000000 div 3600 = time_shift s div (1000000 * 3600)"
    by (rule zdiv_zmult2_eq [symmetric]) simp
  then show ?thesis by (simp add: get_shift_hours_def)
qed

lemma output_path_parse_indep:
  "output_path ov (s\<lparr>original_gpx := g1, current_gpx := g2\<rparr>) w = output_path ov s w"
  by (simp add: output_path_def get_default_output_path_def get_shift_hours_def Let_def
      split: option.splits)

lemma output_path_current_indep:
  "output_path ov (s\<lparr>current_gpx := g\<rparr>) w = output_path ov s w"
  by (simp add: output_path_def get_default_output_path_def get_shift_hours_def Let_def
      split: option.splits)

section \<open>What every session satisfies\<close>

lemma init_session:
  assumes "init parse w f = Inr s"
  shows "original_gpx_path s = Path (gpx_file_path s)" and "time_shift s = 0"
    and "\<not> display_utc s" and "read_text (Path f) w = Inr (original_gpx_text s)"
  using assms
  by (auto simp: init_def timedelta_hours_def new_timedelta_def split: sum.splits if_splits)

lemma shift_time_keeps:
  assumes "shift_time h s = (r, s')"
  shows "original_gpx_path s' = original_gpx_path s" and "gpx_file_path s' = gpx_file_path s"
    and "original_gpx_text s' = original_gpx_text s" and "original_gpx s' = original_gpx s"
    and "display_utc s' = display_utc s"
  using assms
  by (auto simp: shift_time_def Let_def split: sum.splits)

lemma shift_time_whole_hours:
  assumes "shift_time h s = (r, s')" and "3600000000 dvd time_shift s"
  shows "3600000000 dvd time_shift s'"
  using assms
  by (auto simp: shift_time_def Let_def timedelta_hours_def td_add_def new_timedelta_def
      split: sum.splits if_splits)

lemma toggle_display_mode_keeps:
  "time_shift (toggle_display_mode s) = time_shift s"
  "original_gpx_text (toggle_display_mode s) = original_gpx_text s"
  "original_gpx_path (toggle_display_mode s) = original_gpx_path s"
  by (simp_all add: toggle_display_mode_def)

section \<open>Properties of the rewriter\<close>

text \<open>
  C3. Zero-shift identity: for every document text \<open>D\<close>, the rewriter applied
  with the zero duration returns \<open>D\<close> itself, character for character.
\<close>

theorem zero_shift_identity: "shift_gpx_times D 0 = Inr D"
  by (simp add: shift_gpx_times_def)

theorem zero_shift_identity_witness: "shift_gpx_times ex_text 0 = Inr ex_text"
  by (rule zero_shift_identity)

section \<open>Properties of the session\<close>

text \<open>
  C1. \<^verbatim>\<open>save_gpx\<close> succeeds with the path \<open>p\<close> exactly when \<open>p\<close> is the resolved
  output path, the rewriter succeeds on the session's original raw text with the
  current \<^verbatim>\<open>time_shift\<close>, and the file can be written; the world then differs
  only in that the file at \<open>p\<close> holds the rewriter's text, and the session is as
  before. The two structural parses play no part: replacing them changes neither
  the outcome nor the world that \<^verbatim>\<open>save_gpx\<close> leaves.
\<close>

theorem save_gpx_writes_rewritten_original_text:
  "(save_gpx ov s w = (Inr p, s', w') \<longleftrightarrow>
      (output_path ov s w = Inr p \<and> s' = s \<and> writable w (os_abs w p) \<and>
       (\<exists>t. shift_gpx_times (original_gpx_text s) (time_shift s) = Inr t \<and>
            w' = w\<lparr>files := (files w)(os_abs w p \<mapsto> t)\<rparr>))) \<and>
   fst (save_gpx ov (s\<lparr>original_gpx := g1, current_gpx := g2\<rparr>) w) = fst (save_gpx ov s w) \<and>
   snd (snd (save_gpx ov (s\<lparr>original_gpx := g1, current_gpx := g2\<rparr>) w)) =
     snd (snd (save_gpx ov s w))"
proof -
  have "save_gpx ov s w = (Inr p, s', w') \<longleftrightarrow>
      (output_path ov s w = Inr p \<and> s' = s \<and> writable w (os_abs w p) \<and>
       (\<exists>t. shift_gpx_times (original_gpx_text s) (time_shift s) = Inr t \<and>
            w' = w\<lparr>files := (files w)(os_abs w p \<mapsto> t)\<rparr>))"
    by (auto simp: save_gpx_def write_text_def split: sum.splits if_splits)
  moreover have
    "fst (save_gpx ov (s\<lparr>original_gpx := g1, current_gpx := g2\<rparr>) w) = fst (save_gpx ov s w)"
    "snd (snd (save_gpx ov (s\<lparr>original_gpx := g1, current_gpx := g2\<rparr>) w)) =
       snd (snd (save_gpx ov s w))"
    by (simp_all add: save_gpx_def output_path_parse_indep split: sum.splits)
  ultimately show ?thesis by blast
qed

theorem save_gpx_writes_rewritten_original_text_witness:
  "save_gpx None ex_session_p3 ex_world =
     (Inr (Path ''/tmp/morning_run_p3.gpx''), ex_session_p3,
      ex_world\<lparr>files := (files ex_world)
        (Path ''/tmp/morning_run_p3.gpx'' \<mapsto>
           ''<trkpt><time>2025-01-01T03:00:00Z</time></trkpt>'')\<rparr>)"
proof -
  let ?p = "Path ''/tmp/morning_run_p3.gpx''"
  have abs: "os_abs ex_world ?p = ?p"
    by (simp add: os_abs_def is_absolute_def Path_def splitroot_def)
  have 1: "output_path None ex_session_p3 ex_world = Inr ?p"
    by (simp add: output_path_def ex_default3)
  have 2: "writable ex_world (os_abs ex_world ?p)"
    unfolding abs by (simp add: ex_world_def Path_def splitroot_def)
  have 3: "shift_gpx_times (original_gpx_text ex_session_p3) (time_shift ex_session_p3) =
             Inr ''<trkpt><time>2025-01-01T03:00:00Z</time></trkpt>''"
    by (simp add: ex_session_p3_eq ex_session_def ex_shift3)
  show ?thesis
    using save_gpx_writes_rewritten_original_text
      [of None ex_session_p3 ex_world ?p ex_session_p3
          "ex_world\<lparr>files := (files ex_world)
             (?p \<mapsto> ''<trkpt><time>2025-01-01T03:00:00Z</time></trkpt>'')\<rparr>"]
      1 2 3 abs
    by simp
qed

text \<open>
  C7. For a session as \<^verbatim>\<open>__init__\<close> and \<^verbatim>\<open>shift_time\<close> leave it (its path is
  the parsed file path and names a file, its shift is a whole number of hours
  \<open>h\<close>), the default output path is the source file's directory joined with
  stem, suffix and extension, the suffix being \<^verbatim>\<open>_p\<close> and \<open>h\<close> when \<open>h \<ge> 0\<close> and
  \<^verbatim>\<open>_m\<close> and \<open>-h\<close> when \<open>h < 0\<close>. The examples of the claim are the witness.
\<close>

theorem default_output_path_naming:
  assumes "original_gpx_path s = Path (gpx_file_path s)"
    and "path_name (original_gpx_path s) \<noteq> []"
    and "3600000000 dvd time_shift s"
  shows "get_default_output_path s =
           Inr (joinpath (path_parent (original_gpx_path s))
                  (Path (path_stem (original_gpx_path s) @
                         (if 0 \<le> time_shift s div 3600000000
                          then ''_p'' @ str_nat (nat (time_shift s div 3600000000))
                          else ''_m'' @ str_nat (nat (- (time_shift s div 3600000000)))) @
                         path_suffix (original_gpx_path s))))"
proof -
  let ?p = "original_gpx_path s"
  let ?h = "time_shift s div 3600000000"
  let ?sfx = "if 0 \<le> ?h then ''_p'' @ str_nat (nat ?h) else ''_m'' @ str_nat (nat (- ?h))"
  let ?n = "path_stem ?p @ ?sfx @ path_suffix ?p"
  have nosep: "CHR ''/'' \<notin> set (path_name ?p)"
    using assms(1) path_name_no_sep by simp
  have "CHR ''/'' \<notin> set (path_stem ?p)" "CHR ''/'' \<notin> set (path_suffix ?p)"
    using nosep path_stem_subset [of ?p] path_suffix_subset [of ?p] by auto
  then have n1: "CHR ''/'' \<notin> set ?n"
    by (simp add: str_nat_no_sep)
  have "CHR ''_'' \<in> set ?n" by simp
  then have n2: "?n \<noteq> []" "?n \<noteq> ''.''" by auto
  have eq: "get_default_output_path s = with_name ?p ?n"
    by (simp add: get_default_output_path_def get_shift_hours_div Let_def abs_if)
  show ?thesis
    unfolding eq using with_name_join [OF assms(2) n1 n2] .
qed

theorem default_output_path_naming_witness:
  "get_default_output_path ex_session_p3 = Inr (Path ''/tmp/morning_run_p3.gpx'') \<and>
   get_default_output_path ex_evening_m2 = Inr (Path ''/tmp/evening_run_m2.gpx'')"
proof -
  have "get_default_output_path ex_session_p3 =
          Inr (joinpath (path_parent (original_gpx_path ex_session_p3))
                  (Path (path_stem (original_gpx_path ex_session_p3) @
                         (if 0 \<le> time_shift ex_session_p3 div 3600000000
                          then ''_p'' @ str_nat (nat (time_shift ex_session_p3 div 3600000000))
                          else ''_m'' @
                               str_nat (nat (- (time_shift ex_session_p3 div 3600000000)))) @
                         path_suffix (original_gpx_path ex_session_p3))))"
    by (rule default_output_path_naming)
      (simp_all add: ex_session_p3_eq ex_session_def Path_def splitroot_def path_name_def)
  then have a: "get_default_output_path ex_session_p3 = Inr (Path ''/tmp/morning_run_p3.gpx'')"
    by (simp add: ex_session_p3_eq ex_session_def Path_def splitroot_def path_name_def
        path_stem_def path_suffix_def rfind_def path_parent_def joinpath_def str_nat_small)
  have "get_default_output_path ex_evening_m2 =
          Inr (joinpath (path_parent (original_gpx_path ex_evening_m2))
                  (Path (path_stem (original_gpx_path ex_evening_m2) @
                         (if 0 \<le> time_shift ex_evening_m2 div 3600000000
                          then ''_p'' @ str_nat (nat (time_shift ex_evening_m2 div 3600000000))
                          else ''_m'' @
                               str_nat (nat (- (time_shift ex_evening_m2 div 3600000000)))) @
                         path_suffix (original_gpx_path ex_evening_m2))))"
    by (rule default_output_path_naming)
      (simp_all add: ex_evening_m2_def ex_session_def Path_def splitroot_def path_name_def)
  then have b: "get_default_output_path ex_evening_m2 = Inr (Path ''/tmp/evening_run_m2.gpx'')"
    by (simp add: ex_evening_m2_def ex_session_def Path_def splitroot_def path_name_def
        path_stem_def path_suffix_def rfind_def path_parent_def joinpath_def str_nat_small)
  from a b show ?thesis by simp
qed

text \<open>
  C9. When \<^verbatim>\<open>save_gpx\<close> raises, whether from resolving the path, from the rewriter
  or from writing the file, the session it leaves is the session it was given:
  original text, both parses, \<^verbatim>\<open>time_shift\<close> and the display flag.
\<close>

theorem save_gpx_failure_keeps_session:
  "save_gpx ov s w = (Inl e, s', w') \<Longrightarrow> s' = s"
  by (auto simp: save_gpx_def split: sum.splits)

theorem save_gpx_failure_keeps_session_witness:
  "save_gpx (Some ''/ro/out.gpx'') ex_session_p3 ex_world =
     (Inl OSError, ex_session_p3, ex_world)"
proof -
  have "save_gpx (Some ''/ro/out.gpx'') ex_session_p3 ex_world =
          (Inl OSError, fst (snd (save_gpx (Some ''/ro/out.gpx'') ex_session_p3 ex_world)),
           ex_world)"
    by (simp add: save_gpx_def output_path_def expanduser_def Path_def splitroot_def
        is_absolute_def ex_session_p3_eq ex_session_def ex_shift3 write_text_def os_abs_def
        ex_world_def)
  from save_gpx_failure_keeps_session [OF this] this show ?thesis by simp
qed

section \<open>More examples, evaluated\<close>

lemma ex_dt_add0:
  "dt_add \<lparr>year = 2025, month = 1, day = 1, hour = 0, minute = 0, second = 0,
           microsecond = 0, tzinfo = Some 0\<rparr> 0 =
   Inr \<lparr>year = 2025, month = 1, day = 1, hour = 0, minute = 0, second = 0,
        microsecond = 0, tzinfo = Some 0\<rparr>"
  by (simp add: dt_add_def ymd2ord_def days_before_year_def days_before_month_def
      DAYS_BEFORE_MONTH_def DAYS_IN_MONTH_def is_leap_def MAXORDINAL_def ord2ymd_def Let_def)

lemma ex_dt_add_p3_m3:
  "dt_add \<lparr>year = 2025, month = 1, day = 1, hour = 3, minute = 0, second = 0,
           microsecond = 0, tzinfo = Some 0\<rparr> (- 10800000000) =
   Inr \<lparr>year = 2025, month = 1, day = 1, hour = 0, minute = 0, second = 0,
        microsecond = 0, tzinfo = Some 0\<rparr>"
  by (simp add: dt_add_def ymd2ord_def days_before_year_def days_before_month_def
      DAYS_BEFORE_MONTH_def DAYS_IN_MONTH_def is_leap_def MAXORDINAL_def ord2ymd_def Let_def)

lemma ex_apply_shift0: "apply_shift ex_gpx 0 = Inr ex_gpx"
  by (simp add: apply_shift_def ex_gpx_def shift_track_def shift_segment_def
      shift_point_def shift_point_time_def ex_dt_add0)

lemma ex_shift_time0: "shift_time 0 ex_session = (Inr (), ex_session)"
  by (simp add: shift_time_def timedelta_hours_def td_add_def new_timedelta_def td_in_range_def
      ex_session_def ex_apply_shift0)

lemma ex_shift_time_back:
  "shift_time (- 3) ex_session_p3 = (Inr (), ex_session)"
  by (simp add: shift_time_def timedelta_hours_def td_add_def new_timedelta_def td_in_range_def
      ex_session_p3_eq ex_session_def ex_apply_shift0)

lemma ex_default0:
  "get_default_output_path ex_session = Inr (Path ''/tmp/morning_run_p0.gpx'')"
  by (simp add: ex_session_def get_default_output_path_def get_shift_hours_def
      Path_def splitroot_def path_stem_def path_suffix_def path_name_def rfind_def with_name_def
      str_nat_small)

lemma ex_save0:
  "fst (save_gpx None ex_session ex_world) = Inr (Path ''/tmp/morning_run_p0.gpx'')"
proof -
  have "shift_gpx_times (original_gpx_text ex_session) (time_shift ex_session) = Inr ex_text"
    by (simp add: ex_session_def shift_gpx_times_def)
  moreover have "writable ex_world (os_abs ex_world (Path ''/tmp/morning_run_p0.gpx''))"
    by (simp add: os_abs_def is_absolute_def Path_def splitroot_def ex_world_def)
  ultimately show ?thesis
    by (simp add: save_gpx_def output_path_def ex_default0 write_text_def)
qed

lemma ex_overflow_hours: "timedelta_hours 24000000000 = Inl OverflowError"
  by (simp add: timedelta_hours_def new_timedelta_def td_in_range_def)

lemma ex_shift_time_1_2:
  "fst (run_adjusts [1, 2] ex_session) = Inr ()"
proof -
  have a: "dt_add \<lparr>year = 2025, month = 1, day = 1, hour = 0, minute = 0, second = 0,
           microsecond = 0, tzinfo = Some 0\<rparr> 3600000000 =
   Inr \<lparr>year = 2025, month = 1, day = 1, hour = 1, minute = 0, second = 0,
        microsecond = 0, tzinfo = Some 0\<rparr>"
    by (simp add: dt_add_def ymd2ord_def days_before_year_def days_before_month_def
      DAYS_BEFORE_MONTH_def DAYS_IN_MONTH_def is_leap_def MAXORDINAL_def ord2ymd_def Let_def)
  show ?thesis
    by (simp add: shift_time_def timedelta_hours_def td_add_def new_timedelta_def
        td_in_range_def ex_session_def apply_shift_def ex_gpx_def shift_track_def
        shift_segment_def shift_point_def shift_point_time_def a ex_dt_add3)
qed

section \<open>Adjusting the shift\<close>

lemma init_time_shift: "init parse w f = Inr s \<Longrightarrow> time_shift s = 0"
  by (auto simp: init_def timedelta_hours_def new_timedelta_def split: sum.splits if_splits)

lemma timedelta_hours_add:
  "timedelta_hours a = Inr da \<Longrightarrow> timedelta_hours b = Inr db \<Longrightarrow>
   timedelta_hours (a + b) = new_timedelta (da + db)"
  by (auto simp: timedelta_hours_def new_timedelta_def algebra_simps split: if_splits)

lemma shift_time_twice:
  assumes "time_shift s0 = 0"
    and "shift_time a s0 = (Inr (), s1)" and "shift_time b s1 = (Inr (), s2)"
  shows "shift_time (a + b) s0 = (Inr (), s2)"
proof -
  from assms(2) obtain da g1 where
    da: "timedelta_hours a = Inr da" and ta: "td_add (time_shift s0) da = Inr (time_shift s1)"
    and s1: "s1 = s0\<lparr>time_shift := time_shift s1, current_gpx := g1\<rparr>"
    by (auto simp: shift_time_def Let_def split: sum.splits)
  from assms(3) obtain db g2 where
    db: "timedelta_hours b = Inr db" and tb: "td_add (time_shift s1) db = Inr (time_shift s2)"
    and g2: "apply_shift (original_gpx s1) (time_shift s2) = Inr g2"
    and s2: "s2 = s1\<lparr>time_shift := time_shift s2, current_gpx := g2\<rparr>"
    by (auto simp: shift_time_def Let_def split: sum.splits)
  from ta assms(1) have t1: "time_shift s1 = da"
    by (auto simp: td_add_def new_timedelta_def split: if_splits)
  from tb t1 have t2: "new_timedelta (da + db) = Inr (time_shift s2)" "time_shift s2 = da + db"
    by (auto simp: td_add_def new_timedelta_def split: if_splits)
  have h: "timedelta_hours (a + b) = Inr (da + db)"
    using timedelta_hours_add [OF da db] t2 by simp
  have o: "original_gpx s1 = original_gpx s0"
    by (subst s1) simp
  have "s2 = s0\<lparr>time_shift := da + db, current_gpx := g2\<rparr>"
    by (subst s2, subst s1) (simp add: t2)
  then show ?thesis
    using h t2 g2 o assms(1)
    by (simp add: shift_time_def td_add_def Let_def)
qed

lemma save_gpx_current_indep:
  "fst (save_gpx ov (s\<lparr>current_gpx := g\<rparr>) w) = fst (save_gpx ov s w) \<and>
   snd (snd (save_gpx ov (s\<lparr>current_gpx := g\<rparr>) w)) = snd (snd (save_gpx ov s w))"
  by (simp add: save_gpx_def output_path_current_indep split: sum.splits)

text \<open>
  C4 (as amended). On a fresh session, when \<^verbatim>\<open>shift_time(a)\<close> and then
  \<^verbatim>\<open>shift_time(b)\<close> both return without raising, the script that saves after
  them and the script that saves after the single \<^verbatim>\<open>shift_time(a + b)\<close> have the
  same outcome, leave the same session and write the same file.
\<close>

theorem adjust_additive:
  assumes "init parse w0 f = Inr s0" and "fst (run_adjusts [a, b] s0) = Inr ()"
  shows "adjust_then_save [a, b] ov s0 w = adjust_then_save [a + b] ov s0 w"
proof -
  from assms(2) obtain s1 s2 where
    1: "shift_time a s0 = (Inr (), s1)" and 2: "shift_time b s1 = (Inr (), s2)"
    by (auto split: prod.splits sum.splits)
  have "shift_time (a + b) s0 = (Inr (), s2)"
    using shift_time_twice [OF init_time_shift [OF assms(1)] 1 2] .
  with 1 2 show ?thesis
    by (simp add: adjust_then_save_def)
qed

theorem adjust_additive_witness:
  "init ex_parse ex_world ''/tmp/morning_run.gpx'' = Inr ex_session \<and>
   fst (run_adjusts [1, 2] ex_session) = Inr () \<and>
   adjust_then_save [1, 2] None ex_session ex_world =
     adjust_then_save [1 + 2] None ex_session ex_world"
  using adjust_additive [OF ex_init ex_shift_time_1_2, of None ex_world] ex_init
    ex_shift_time_1_2
  by simp

text \<open>
  The claim without the condition fails: \<^verbatim>\<open>timedelta(hours=24000000000)\<close> is
  out of range, so the first script raises, while the sum of the two hour counts
  is zero and the second script saves.
\<close>

theorem adjust_additive_counterexample:
  "init ex_parse ex_world ''/tmp/morning_run.gpx'' = Inr ex_session \<and>
   fst (adjust_then_save [24000000000, - 24000000000] None ex_session ex_world) =
     Inl OverflowError \<and>
   fst (adjust_then_save [24000000000 + - 24000000000] None ex_session ex_world) =
     Inr (Path ''/tmp/morning_run_p0.gpx'')"
proof -
  have "shift_time 24000000000 ex_session = (Inl OverflowError, ex_session)"
    by (simp add: shift_time_def ex_overflow_hours)
  then have "fst (adjust_then_save [24000000000, - 24000000000] None ex_session ex_world) =
     Inl OverflowError"
    by (simp add: adjust_then_save_def)
  moreover have "fst (adjust_then_save [24000000000 + - 24000000000] None ex_session ex_world) =
     Inr (Path ''/tmp/morning_run_p0.gpx'')"
    by (simp add: adjust_then_save_def ex_shift_time0 ex_save0)
  ultimately show ?thesis using ex_init by simp
qed

text \<open>
  C5 (as amended). From any session, when \<^verbatim>\<open>shift_time(h)\<close> and then
  \<^verbatim>\<open>shift_time(-h)\<close> both return without raising, \<^verbatim>\<open>time_shift\<close> is what it was
  before, and \<^verbatim>\<open>save_gpx\<close> has the same outcome and writes the same file as it
  would have before the two calls.
\<close>

theorem adjust_inverse_cancels:
  assumes "shift_time h s = (Inr (), s1)" and "shift_time (- h) s1 = (Inr (), s2)"
  shows "time_shift s2 = time_shift s \<and>
         fst (save_gpx ov s2 w) = fst (save_gpx ov s w) \<and>
         snd (snd (save_gpx ov s2 w)) = snd (snd (save_gpx ov s w))"
proof -
  from assms(1) obtain g1 where
    t1: "time_shift s1 = time_shift s + h * 3600000000"
    and s1: "s1 = s\<lparr>time_shift := time_shift s1, current_gpx := g1\<rparr>"
    by (auto simp: shift_time_def Let_def timedelta_hours_def td_add_def new_timedelta_def
        split: sum.splits if_splits)
  from assms(2) obtain g2 where
    t2: "time_shift s2 = time_shift s1 + (- h) * 3600000000"
    and s2: "s2 = s1\<lparr>time_shift := time_shift s2, current_gpx := g2\<rparr>"
    by (auto simp: shift_time_def Let_def timedelta_hours_def td_add_def new_timedelta_def
        split: sum.splits if_splits)
  from t1 t2 have t: "time_shift s2 = time_shift s" by simp
  have "s2 = s\<lparr>current_gpx := g2\<rparr>"
    by (subst s2, subst s1) (simp add: t)
  then show ?thesis
    using t save_gpx_current_indep [where s = s and g = g2 and ov = ov and w = w] by simp
qed

theorem adjust_inverse_cancels_witness:
  "shift_time 3 ex_session = (Inr (), ex_session_p3) \<and>
   shift_time (- 3) ex_session_p3 = (Inr (), ex_session) \<and>
   time_shift ex_session_p3 = 10800000000 \<and> time_shift ex_session = 0 \<and>
   fst (save_gpx None ex_session ex_world) = Inr (Path ''/tmp/morning_run_p0.gpx'')"
proof -
  have 1: "shift_time 3 ex_session = (Inr (), ex_session_p3)"
    by (simp add: ex_shift_time3 ex_session_p3_eq)
  from adjust_inverse_cancels [OF 1 ex_shift_time_back, of None ex_world] 1
    ex_shift_time_back ex_save0
  show ?thesis by (simp add: ex_session_p3_eq) (simp add: ex_session_def)
qed

text \<open>
  The claim without the condition fails: a duration of \<open>23999999977\<close> hours is in
  range, its negation is not, so the second call raises and \<^verbatim>\<open>time_shift\<close> stays
  at the value the first call gave it.
\<close>

theorem adjust_inverse_cancels_counterexample:
  "shift_time 23999999977 ex_empty_session =
     (Inr (), ex_empty_session\<lparr>time_shift := 86399999917200000000\<rparr>) \<and>
   shift_time (- 23999999977) (ex_empty_session\<lparr>time_shift := 86399999917200000000\<rparr>) =
     (Inl OverflowError, ex_empty_session\<lparr>time_shift := 86399999917200000000\<rparr>) \<and>
   time_shift (ex_empty_session\<lparr>time_shift := 86399999917200000000\<rparr>) \<noteq>
     time_shift ex_empty_session"
  by (simp add: shift_time_def timedelta_hours_def td_add_def new_timedelta_def
      td_in_range_def ex_empty_session_def apply_shift_def ex_empty_gpx_def)

section \<open>Resolving an override path\<close>

lemma parent_is_dot:
  "\<not> is_absolute c \<Longrightarrow> (path_parent c = Path ''.'') = (length (parts c) \<le> 1)"
proof -
  assume "\<not> is_absolute c"
  then have r: "root c = []" by (simp add: is_absolute_def)
  have d: "Path ''.'' = \<lparr>root = [], parts = []\<rparr>"
    by (simp add: Path_def splitroot_def)
  have b: "(butlast (parts c) = []) = (length (parts c) \<le> 1)"
    by (cases "parts c" rule: rev_cases) auto
  show ?thesis
  proof (cases "parts c = []")
    case True
    with r show ?thesis by (cases c) (simp add: path_parent_def d)
  next
    case False
    with r b show ?thesis by (cases c) (simp add: path_parent_def d)
  qed
qed

lemma expanduser_no_tilde: "take 1 f \<noteq> ''~'' \<Longrightarrow> expanduser w f = f"
  by (simp add: expanduser_def)

text \<open>
  C8 (as amended). For a non-empty override, the candidate is the path parsed
  from the override after \<^verbatim>\<open>expanduser\<close>, which leaves every string that does
  not start with \<^verbatim>\<open>~\<close> as it is. An absolute candidate is the output path; a
  candidate of at most one part is placed in the source file's directory; any
  other candidate is joined to the working directory. That path is the one
  \<^verbatim>\<open>save_gpx\<close> returns when it succeeds.
\<close>

theorem override_resolution:
  assumes "f \<noteq> []"
  shows "output_path (Some f) s w =
           Inr (let c = Path (expanduser w f) in
                if is_absolute c then c
                else if length (parts c) \<le> 1
                  then joinpath (path_parent (original_gpx_path s)) (Path (path_name c))
                else joinpath (cwd w) c) \<and>
         (take 1 f \<noteq> ''~'' \<longrightarrow> expanduser w f = f) \<and>
         (\<forall>p. fst (save_gpx (Some f) s w) = Inr p \<longrightarrow> output_path (Some f) s w = Inr p)"
proof -
  have "output_path (Some f) s w =
           Inr (let c = Path (expanduser w f) in
                if is_absolute c then c
                else if length (parts c) \<le> 1
                  then joinpath (path_parent (original_gpx_path s)) (Path (path_name c))
                else joinpath (cwd w) c)"
    using assms by (simp add: output_path_def Let_def parent_is_dot)
  moreover have "\<forall>p. fst (save_gpx (Some f) s w) = Inr p \<longrightarrow> output_path (Some f) s w = Inr p"
    by (auto simp: save_gpx_def split: sum.splits)
  ultimately show ?thesis
    using expanduser_no_tilde by blast
qed

theorem override_resolution_witness:
  "output_path (Some ''/abs/out.gpx'') ex_session_p3 ex_world = Inr (Path ''/abs/out.gpx'') \<and>
   output_path (Some ''out.gpx'') ex_session_p3 ex_world = Inr (Path ''/tmp/out.gpx'') \<and>
   output_path (Some ''sub/out.gpx'') ex_session_p3 ex_world = Inr (Path ''/work/sub/out.gpx'') \<and>
   fst (save_gpx (Some ''out.gpx'') ex_session_p3 ex_world) = Inr (Path ''/tmp/out.gpx'')"
proof -
  have s: "fst (save_gpx (Some ''out.gpx'') ex_session_p3 ex_world) = Inr (Path ''/tmp/out.gpx'')"
    by (simp add: save_gpx_def output_path_def expanduser_def Path_def splitroot_def
        is_absolute_def path_parent_def path_name_def joinpath_def
        ex_session_p3_eq ex_session_def ex_shift3 write_text_def os_abs_def
        ex_world_def)
  have "''/abs/out.gpx'' \<noteq> []" "''out.gpx'' \<noteq> []" "''sub/out.gpx'' \<noteq> []" by simp_all
  from override_resolution [OF this(1), of ex_session_p3 ex_world]
    override_resolution [OF this(2), of ex_session_p3 ex_world]
    override_resolution [OF this(3), of ex_session_p3 ex_world] s
  show ?thesis
    by (simp add: expanduser_def Path_def splitroot_def is_absolute_def path_parent_def
        path_name_def joinpath_def ex_session_p3_eq ex_session_def ex_world_def)
qed

text \<open>
  The claim without \<^verbatim>\<open>expanduser\<close> fails: the override \<^verbatim>\<open>~/out.gpx\<close> is
  relative and has a directory component, yet it resolves to the home directory
  and not below the working directory.
\<close>

theorem override_resolution_counterexample:
  "output_path (Some ''~/out.gpx'') ex_session ex_world = Inr (Path ''/home/u/out.gpx'') \<and>
   \<not> is_absolute (Path ''~/out.gpx'') \<and>
   path_parent (Path ''~/out.gpx'') \<noteq> Path ''.'' \<and>
   Path ''/home/u/out.gpx'' \<noteq> joinpath (cwd ex_world) (Path ''~/out.gpx'')"
  by (simp add: output_path_def expanduser_def rstrip_sep_def Path_def splitroot_def
      is_absolute_def path_parent_def joinpath_def ex_world_def)

section \<open>Calendar bounds\<close>





section \<open>The shape of a rendered timestamp\<close>







lemma match_prefix_append:
  "match_prefix (ps @ qs) xs = (match_prefix ps xs \<and> match_prefix qs (drop (length ps) xs))"
  by (induction ps xs rule: match_prefix.induct) auto

lemma match_prefix_lits: "match_prefix (map Lit l) xs = (take (length l) xs = l)"
proof (induction l arbitrary: xs)
  case Nil
  then show ?case by simp
next
  case (Cons a l)
  then show ?case by (cases xs) auto
qed


lemma match_prefix_extend: "match_prefix ps xs \<Longrightarrow> match_prefix ps (xs @ ys)"
  by (induction ps xs rule: match_prefix.induct) auto

lemma match_prefix_length: "match_prefix ps xs \<Longrightarrow> length ps \<le> length xs"
  by (induction ps xs rule: match_prefix.induct) auto


lemma time_fmt_length: "length time_fmt = 20"
  by (simp add: time_fmt_def)

lemma pattern_length: "length GPX_TIME_PATTERN = 33"
  by (simp add: GPX_TIME_PATTERN_def time_fmt_length)




lemma pattern_struct_gen:
  assumes "length l1 = n1" and "length f = nf" and "length l2 = n2" and "n1 + nf = n12"
  shows "match_prefix (map Lit l1 @ f @ map Lit l2) m =
     (take n1 m = l1 \<and> match_prefix f (drop n1 m) \<and> take n2 (drop n12 m) = l2)"
  using assms by (auto simp: match_prefix_append match_prefix_lits add.commute)

lemma pattern_struct:
  "match_prefix GPX_TIME_PATTERN m =
     (take 6 m = ''<time>'' \<and> match_prefix time_fmt (drop 6 m) \<and> take 7 (drop 26 m) = ''</time>'')"
  unfolding GPX_TIME_PATTERN_def
  by (rule pattern_struct_gen) (simp_all add: time_fmt_length)


section \<open>Where the pattern can match\<close>

lemma match_prefix_nth:
  "match_prefix ps xs \<Longrightarrow> k < length ps \<Longrightarrow> cls_ok (ps ! k) (xs ! k)"
proof (induction ps xs arbitrary: k rule: match_prefix.induct)
  case (1 s)
  then show ?case by simp
next
  case (2 p ps)
  then show ?case by simp
next
  case (3 p ps c cs)
  then show ?case by (cases k) auto
qed

lemma match_prefix_shorter:
  "match_prefix ps (xs @ ys) \<Longrightarrow> length ps \<le> length xs \<Longrightarrow> match_prefix ps xs"
proof (induction ps xs rule: match_prefix.induct)
  case (1 s)
  then show ?case by simp
next
  case (2 p ps)
  then show ?case by simp
next
  case (3 p ps c cs)
  then show ?case by simp
qed


lemma time_fmt_classes: "p \<in> set time_fmt \<Longrightarrow> p \<in> {Digit, Lit CHR ''-'', Lit CHR ''T'', Lit CHR '':'', Lit CHR ''Z''}"
  by (auto simp: time_fmt_def)

lemma time_fmt_no_lt: "k < 20 \<Longrightarrow> \<not> cls_ok (time_fmt ! k) CHR ''<''"
proof -
  assume "k < 20"
  then have "time_fmt ! k \<in> set time_fmt" by (simp add: time_fmt_length)
  from time_fmt_classes [OF this] show ?thesis
    by (auto simp: is_digit_def)
qed

lemma open_tag_lt: "k < 6 \<Longrightarrow> ''<time>'' ! k = CHR ''<'' \<Longrightarrow> k = 0"
proof -
  assume "k < 6"
  then have "k \<in> {0, 1, 2, 3, 4, 5}" by auto
  moreover assume "''<time>'' ! k = CHR ''<''"
  ultimately show ?thesis by auto
qed

lemma close_tag_lt: "k < 7 \<Longrightarrow> ''</time>'' ! k = CHR ''<'' \<Longrightarrow> k = 0"
proof -
  assume "k < 7"
  then have "k \<in> {0, 1, 2, 3, 4, 5, 6}" by auto
  moreover assume "''</time>'' ! k = CHR ''<''"
  ultimately show ?thesis by auto
qed

lemma pattern_nth_gen:
  assumes "length l1 = n1" and "length f = nf" and "n1 + nf = n12" and "k < n12 + length l2"
  shows "(map Lit l1 @ f @ map Lit l2) ! k =
     (if k < n1 then Lit (l1 ! k)
      else if k < n12 then f ! (k - n1)
      else Lit (l2 ! (k - n12)))"
  using assms by (auto simp: nth_append)

lemma pattern_nth:
  "k < 33 \<Longrightarrow> GPX_TIME_PATTERN ! k =
     (if k < 6 then Lit (''<time>'' ! k)
      else if k < 26 then time_fmt ! (k - 6)
      else Lit (''</time>'' ! (k - 26)))"
  unfolding GPX_TIME_PATTERN_def
  by (rule pattern_nth_gen) (simp_all add: time_fmt_length)

lemma pattern_lt:
  assumes "match_prefix GPX_TIME_PATTERN xs" and "k < 33" and "xs ! k = CHR ''<''"
  shows "k = 0 \<or> k = 26"
proof -
  have c: "cls_ok (GPX_TIME_PATTERN ! k) CHR ''<''"
    using match_prefix_nth [OF assms(1), of k] assms(2,3) by (simp add: pattern_length)
  show ?thesis
  proof (cases "k < 6")
    case True
    with c assms(2) have "''<time>'' ! k = CHR ''<''"
      by (simp add: pattern_nth)
    with True show ?thesis using open_tag_lt by blast
  next
    case False
    show ?thesis
    proof (cases "k < 26")
      case True
      with False c assms(2) have "cls_ok (time_fmt ! (k - 6)) CHR ''<''"
        by (simp add: pattern_nth)
      moreover have "k - 6 < 20" using True by simp
      ultimately show ?thesis using time_fmt_no_lt by blast
    next
      case k26: False
      with False c assms(2) have "''</time>'' ! (k - 26) = CHR ''<''"
        by (simp add: pattern_nth)
      moreover have "k - 26 < 7" using assms(2) by simp
      ultimately have "k - 26 = 0" using close_tag_lt by blast
      with k26 show ?thesis by simp
    qed
  qed
qed

lemma pattern_heads:
  assumes "match_prefix GPX_TIME_PATTERN xs"
  shows "xs ! 0 = CHR ''<''" and "xs ! 1 = CHR ''t''" and "xs ! 27 = CHR ''/''"
    and "33 \<le> length xs"
proof -
  show "xs ! 0 = CHR ''<''"
    using match_prefix_nth [OF assms, of 0] by (simp add: pattern_length pattern_nth)
  show "xs ! 1 = CHR ''t''"
    using match_prefix_nth [OF assms, of 1] by (simp add: pattern_length pattern_nth)
  show "xs ! 27 = CHR ''/''"
    using match_prefix_nth [OF assms, of 27] by (simp add: pattern_length pattern_nth)
  show "33 \<le> length xs"
    using match_prefix_length [OF assms] by (simp add: pattern_length)
qed

text \<open>Inside a match, behind its first character, no \<^verbatim>\<open><t\<close> begins.\<close>

lemma no_tag_inside_match:
  assumes "match_prefix GPX_TIME_PATTERN xs" and "0 < k" and "k < 33"
    and "xs ! k = CHR ''<''"
  shows "xs ! Suc k \<noteq> CHR ''t''"
proof -
  from pattern_lt [OF assms(1,3,4)] assms(2) have "k = 26" by simp
  then show ?thesis using pattern_heads(3) [OF assms(1)] by simp
qed

lemma no_overlap:
  assumes "match_prefix GPX_TIME_PATTERN xs" and "0 < k" and "k < 33"
  shows "\<not> match_prefix GPX_TIME_PATTERN (drop k xs)"
proof
  assume m: "match_prefix GPX_TIME_PATTERN (drop k xs)"
  have len: "33 \<le> length (drop k xs)" using pattern_heads(4) [OF m] .
  then have "k + 33 \<le> length xs" by simp
  then have "drop k xs ! 0 = xs ! k" "drop k xs ! 1 = xs ! Suc k"
    by simp_all
  with pattern_heads(1,2) [OF m] have "xs ! k = CHR ''<''" "xs ! Suc k = CHR ''t''"
    by simp_all
  with no_tag_inside_match [OF assms] show False by simp
qed

section \<open>The scan of \<^verbatim>\<open>re_sub\<close>\<close>




lemma drop_33_Cons: "drop (j + 33) (c # cs) = drop j (drop 32 cs)"
proof -
  have "j + 33 = Suc (j + 32)" by simp
  then show ?thesis by (simp only: drop_Suc_Cons drop_drop)
qed




lemma re_sub_append:
  assumes "\<forall>k<length xs. match_prefix GPX_TIME_PATTERN (drop k (xs @ ys)) \<longrightarrow> k + 33 \<le> length xs"
  shows "re_sub f (xs @ ys) =
           (case re_sub f xs of
              Inl e \<Rightarrow> Inl e
            | Inr a \<Rightarrow> (case re_sub f ys of Inl e \<Rightarrow> Inl e | Inr b \<Rightarrow> Inr (a @ b)))"
  using assms
proof (induction f xs rule: re_sub.induct)
  case (1 repl)
  show ?case by (cases "re_sub repl ys") simp_all
next
  case (2 repl c cs)
  note hyp = "2.prems"
  show ?case
  proof (cases "match_prefix GPX_TIME_PATTERN (c # cs @ ys)")
    case True
    have "match_prefix GPX_TIME_PATTERN (drop 0 ((c # cs) @ ys))" using True by simp
    with hyp have len: "33 \<le> length (c # cs)" by fastforce
    have m: "match_prefix GPX_TIME_PATTERN (c # cs)"
      using True len match_prefix_shorter [of GPX_TIME_PATTERN "c # cs" ys]
      by (simp add: pattern_length)
    have tk: "take 32 (cs @ ys) = take 32 cs" and dr: "drop 32 (cs @ ys) = drop 32 cs @ ys"
      using len by simp_all
    have "re_sub repl (c # (cs @ ys)) =
      (case repl (c # take 32 (cs @ ys)) of
         Inl e \<Rightarrow> Inl e
       | Inr r \<Rightarrow> (case re_sub repl (drop 32 (cs @ ys)) of
                     Inl e \<Rightarrow> Inl e | Inr rest \<Rightarrow> Inr (r @ rest)))"
      using True by (simp only: re_sub.simps if_True)
    then have lhs: "re_sub repl ((c # cs) @ ys) =
      (case repl (c # take 32 cs) of
         Inl e \<Rightarrow> Inl e
       | Inr r \<Rightarrow> (case re_sub repl (drop 32 cs @ ys) of
                     Inl e \<Rightarrow> Inl e | Inr rest \<Rightarrow> Inr (r @ rest)))"
      unfolding tk dr by (simp only: append_Cons)
    have rhs: "re_sub repl (c # cs) =
      (case repl (c # take 32 cs) of
         Inl e \<Rightarrow> Inl e
       | Inr r \<Rightarrow> (case re_sub repl (drop 32 cs) of
                     Inl e \<Rightarrow> Inl e | Inr rest \<Rightarrow> Inr (r @ rest)))"
      using m by simp
    show ?thesis
    proof (cases "repl (c # take 32 cs)")
      case (Inl e)
      then show ?thesis unfolding lhs rhs by simp
    next
      case (Inr r)
      have h': "\<forall>k<length (drop 32 cs).
          match_prefix GPX_TIME_PATTERN (drop k (drop 32 cs @ ys)) \<longrightarrow>
          k + 33 \<le> length (drop 32 cs)"
      proof (intro allI impI)
        fix k
        assume k: "k < length (drop 32 cs)"
          and mk: "match_prefix GPX_TIME_PATTERN (drop k (drop 32 cs @ ys))"
        have "drop (k + 33) ((c # cs) @ ys) = drop k (drop 32 (cs @ ys))"
          by (simp only: append_Cons drop_33_Cons)
        then have "drop (k + 33) ((c # cs) @ ys) = drop k (drop 32 cs @ ys)"
          unfolding dr .
        with mk have "match_prefix GPX_TIME_PATTERN (drop (k + 33) ((c # cs) @ ys))" by simp
        moreover have "k + 33 < length (c # cs)" using k by simp
        ultimately have "k + 33 + 33 \<le> length (c # cs)" using hyp by blast
        then show "k + 33 \<le> length (drop 32 cs)" by simp
      qed
      from "2.IH"(1) [OF m Inr h']
      have ih: "re_sub repl (drop 32 cs @ ys) =
           (case re_sub repl (drop 32 cs) of
              Inl e \<Rightarrow> Inl e
            | Inr a \<Rightarrow> (case re_sub repl ys of Inl e \<Rightarrow> Inl e | Inr b \<Rightarrow> Inr (a @ b)))" .
      show ?thesis unfolding lhs rhs ih Inr
        by (simp split: sum.splits)
    qed
  next
    case False
    have nm: "\<not> match_prefix GPX_TIME_PATTERN (c # cs)"
    proof
      assume "match_prefix GPX_TIME_PATTERN (c # cs)"
      then have "match_prefix GPX_TIME_PATTERN ((c # cs) @ ys)" by (rule match_prefix_extend)
      with False show False by simp
    qed
    have h': "\<forall>k<length cs. match_prefix GPX_TIME_PATTERN (drop k (cs @ ys)) \<longrightarrow>
          k + 33 \<le> length cs"
    proof (intro allI impI)
      fix k
      assume k: "k < length cs" and mk: "match_prefix GPX_TIME_PATTERN (drop k (cs @ ys))"
      have "match_prefix GPX_TIME_PATTERN (drop (Suc k) ((c # cs) @ ys))" using mk by simp
      moreover have "Suc k < length (c # cs)" using k by simp
      ultimately have "Suc k + 33 \<le> length (c # cs)" using hyp by blast
      then show "k + 33 \<le> length cs" by simp
    qed
    from "2.IH"(2) [OF nm h']
    have ih: "re_sub repl (cs @ ys) =
           (case re_sub repl cs of
              Inl e \<Rightarrow> Inl e
            | Inr a \<Rightarrow> (case re_sub repl ys of Inl e \<Rightarrow> Inl e | Inr b \<Rightarrow> Inr (a @ b)))" .
    have "re_sub repl ((c # cs) @ ys) =
        (case re_sub repl (cs @ ys) of Inl e \<Rightarrow> Inl e | Inr rest \<Rightarrow> Inr (c # rest))"
      using False by simp
    moreover have "re_sub repl (c # cs) =
        (case re_sub repl cs of Inl e \<Rightarrow> Inl e | Inr rest \<Rightarrow> Inr (c # rest))"
      using nm by simp
    ultimately show ?thesis unfolding ih
      by (simp split: sum.splits)
  qed
qed

lemma re_sub_no_match:
  assumes "\<forall>k<length xs. \<not> match_prefix GPX_TIME_PATTERN (drop k xs)"
  shows "re_sub f xs = Inr xs"
  using assms
proof (induction f xs rule: re_sub.induct)
  case (1 repl)
  show ?case by simp
next
  case (2 repl c cs)
  note hyp = "2.prems"
  have "\<not> match_prefix GPX_TIME_PATTERN (drop 0 (c # cs))" using hyp by blast
  then have nm: "\<not> match_prefix GPX_TIME_PATTERN (c # cs)" by simp
  have h': "\<forall>k<length cs. \<not> match_prefix GPX_TIME_PATTERN (drop k cs)"
  proof (intro allI impI)
    fix k
    assume "k < length cs"
    then have "Suc k < length (c # cs)" by simp
    with hyp have "\<not> match_prefix GPX_TIME_PATTERN (drop (Suc k) (c # cs))" by blast
    then show "\<not> match_prefix GPX_TIME_PATTERN (drop k cs)" by simp
  qed
  from "2.IH"(2) [OF nm h'] nm show ?case by simp
qed

lemma re_sub_head_error:
  assumes "match_prefix GPX_TIME_PATTERN m" and "length m = 33" and "f m = Inl e"
  shows "re_sub f (m @ post) = Inl e"
proof (cases m)
  case Nil
  with assms(2) show ?thesis by simp
next
  case (Cons c cs)
  have "match_prefix GPX_TIME_PATTERN (c # cs @ post)"
    using match_prefix_extend [OF assms(1), of post] by (simp add: Cons)
  moreover have "take 32 (cs @ post) = cs" using assms(2) by (simp add: Cons)
  ultimately show ?thesis using assms(3) by (simp add: Cons)
qed

section \<open>Elements around a match\<close>

lemma no_straddle_before_match:
  assumes m: "match_prefix GPX_TIME_PATTERN rest" and k: "k < length pre"
    and mk: "match_prefix GPX_TIME_PATTERN (drop k (pre @ rest))"
  shows "k + 33 \<le> length pre"
proof (rule ccontr)
  assume "\<not> k + 33 \<le> length pre"
  then have o: "0 < length pre - k" "length pre - k < 33" using k by simp_all
  have "drop (length pre - k) (drop k (pre @ rest)) = rest"
    using k by simp
  with no_overlap [OF mk o] m show False by simp
qed

lemma no_straddle_before_tag:
  assumes k: "k < length pre"
    and mk: "match_prefix GPX_TIME_PATTERN (drop k (pre @ CHR ''<'' # CHR ''t'' # rest))"
  shows "k + 33 \<le> length pre"
proof (rule ccontr)
  assume "\<not> k + 33 \<le> length pre"
  then have o: "0 < length pre - k" "length pre - k < 33" using k by simp_all
  let ?L = "pre @ CHR ''<'' # CHR ''t'' # rest"
  let ?xs = "drop k ?L"
  have kl: "k \<le> length ?L" using k by simp
  have e1: "k + (length pre - k) = length pre" and e2: "k + Suc (length pre - k) = Suc (length pre)"
    using k by simp_all
  have "?xs ! (length pre - k) = ?L ! length pre"
    using nth_drop [OF kl, of "length pre - k"] unfolding e1 .
  then have 1: "?xs ! (length pre - k) = CHR ''<''" by simp
  have "?xs ! Suc (length pre - k) = ?L ! Suc (length pre)"
    using nth_drop [OF kl, of "Suc (length pre - k)"] unfolding e2 .
  then have 2: "?xs ! Suc (length pre - k) = CHR ''t''"
    by (simp add: nth_append)
  from no_tag_inside_match [OF mk o 1] 2 show False by simp
qed

lemma element_head_no_match:
  assumes lt: "CHR ''<'' \<notin> set inner"
    and bad: "\<not> (length inner = 20 \<and> match_prefix time_fmt inner)"
  shows "\<not> match_prefix GPX_TIME_PATTERN (''<time>'' @ inner @ ''</time>'' @ post)"
proof
  let ?rest = "''</time>'' @ post"
  assume "match_prefix GPX_TIME_PATTERN (''<time>'' @ inner @ ''</time>'' @ post)"
  then have tf: "match_prefix time_fmt (inner @ ?rest)"
    and cl: "take 7 (drop 20 (inner @ ?rest)) = ''</time>''"
    unfolding pattern_struct by simp_all
  consider "length inner < 20" | "20 < length inner" | "length inner = 20" by linarith
  then show False
  proof cases
    case 1
    have "cls_ok (time_fmt ! length inner) ((inner @ ?rest) ! length inner)"
      using tf 1 by (intro match_prefix_nth) (simp_all add: time_fmt_length)
    then have "cls_ok (time_fmt ! length inner) CHR ''<''" by simp
    with time_fmt_no_lt [OF 1] show False by simp
  next
    case 2
    then have "take 7 (drop 20 (inner @ ?rest)) ! 0 = inner ! 20"
      by (simp add: nth_append)
    with cl have "inner ! 20 = CHR ''<''" by simp
    moreover have "inner ! 20 \<in> set inner" using 2 by simp
    ultimately show False using lt by simp
  next
    case 3
    then have "match_prefix time_fmt inner"
      using tf by (intro match_prefix_shorter [of time_fmt inner ?rest]) (simp_all add: time_fmt_length)
    with 3 bad show False by simp
  qed
qed

lemma element_nth:
  assumes "length a = 6" and "length b = 7"
  shows "(a @ inner @ b @ post) ! k =
     (if k < 6 then a ! k
      else if k < 6 + length inner then inner ! (k - 6)
      else if k < 13 + length inner then b ! (k - 6 - length inner)
      else post ! (k - 13 - length inner))"
  using assms by (auto simp: nth_append)

lemma element_no_match:
  assumes lt: "CHR ''<'' \<notin> set inner"
    and bad: "\<not> (length inner = 20 \<and> match_prefix time_fmt inner)"
    and k: "k < 13 + length inner"
  shows "\<not> match_prefix GPX_TIME_PATTERN (drop k (''<time>'' @ inner @ ''</time>'' @ post))"
proof (cases "k = 0")
  case True
  with element_head_no_match [OF lt bad, of post] show ?thesis by simp
next
  case False
  let ?T = "''<time>'' @ inner @ ''</time>'' @ post"
  show ?thesis
  proof
    assume m: "match_prefix GPX_TIME_PATTERN (drop k ?T)"
    have "33 \<le> length (drop k ?T)" using pattern_heads(4) [OF m] .
    then have len: "k + 33 \<le> length ?T" by simp
    have "drop k ?T ! 0 = ?T ! k" "drop k ?T ! 1 = ?T ! Suc k"
      using len by simp_all
    with pattern_heads(1,2) [OF m] have c0: "?T ! k = CHR ''<''" and c1: "?T ! Suc k = CHR ''t''"
      by simp_all
    have nth: "?T ! j =
     (if j < 6 then ''<time>'' ! j
      else if j < 6 + length inner then inner ! (j - 6)
      else if j < 13 + length inner then ''</time>'' ! (j - 6 - length inner)
      else post ! (j - 13 - length inner))" for j
      by (rule element_nth) simp_all
    consider "k < 6" | "6 \<le> k" "k < 6 + length inner" | "k = 6 + length inner"
      | "6 + length inner < k" using k by linarith
    then show False
    proof cases
      case 1
      with c0 [unfolded nth] have "''<time>'' ! k = CHR ''<''" by simp
      with 1 open_tag_lt have "k = 0" by blast
      with False show False by simp
    next
      case 2
      with c0 [unfolded nth] have "inner ! (k - 6) = CHR ''<''" by simp
      moreover have "inner ! (k - 6) \<in> set inner" using 2 by simp
      ultimately show False using lt by simp
    next
      case 3
      with c1 [unfolded nth] have "''</time>'' ! 1 = CHR ''t''" by simp
      then show False by simp
    next
      case 4
      with k c0 [unfolded nth] have "''</time>'' ! (k - 6 - length inner) = CHR ''<''" by simp
      moreover have "k - 6 - length inner < 7" using k by simp
      ultimately have "k - 6 - length inner = 0" using close_tag_lt by blast
      with 4 show False by simp
    qed
  qed
qed



lemma element_unchanged_gen:
  assumes nm: "\<forall>k<length E. \<not> match_prefix GPX_TIME_PATTERN (drop k (E @ post))"
    and tag: "E = CHR ''<'' # CHR ''t'' # E'"
  shows "re_sub f (pre @ E @ post) =
      (case re_sub f pre of
         Inl e \<Rightarrow> Inl e
       | Inr a \<Rightarrow> (case re_sub f post of Inl e \<Rightarrow> Inl e | Inr b \<Rightarrow> Inr (a @ E @ b)))"
proof -
  have "\<forall>k<length E. \<not> match_prefix GPX_TIME_PATTERN (drop k E)"
  proof (intro allI impI)
    fix k
    assume k: "k < length E"
    show "\<not> match_prefix GPX_TIME_PATTERN (drop k E)"
    proof
      assume "match_prefix GPX_TIME_PATTERN (drop k E)"
      then have "match_prefix GPX_TIME_PATTERN (drop k E @ post)" by (rule match_prefix_extend)
      moreover have "drop k (E @ post) = drop k E @ post" using k by simp
      ultimately show False using nm k by simp
    qed
  qed
  then have rE: "re_sub f E = Inr E" by (rule re_sub_no_match)
  have "\<forall>k<length E. match_prefix GPX_TIME_PATTERN (drop k (E @ post)) \<longrightarrow> k + 33 \<le> length E"
    using nm by blast
  from re_sub_append [OF this, of f]
  have 2: "re_sub f (E @ post) =
      (case re_sub f post of Inl e \<Rightarrow> Inl e | Inr b \<Rightarrow> Inr (E @ b))"
    unfolding rE by simp
  have "\<forall>k<length pre. match_prefix GPX_TIME_PATTERN (drop k (pre @ E @ post)) \<longrightarrow>
          k + 33 \<le> length pre"
    unfolding tag using no_straddle_before_tag [of _ pre "E' @ post"] by simp
  from re_sub_append [OF this, of f]
  have 1: "re_sub f (pre @ E @ post) =
      (case re_sub f pre of
         Inl e \<Rightarrow> Inl e
       | Inr a \<Rightarrow> (case re_sub f (E @ post) of Inl e \<Rightarrow> Inl e | Inr b \<Rightarrow> Inr (a @ b)))" .
  show ?thesis
    unfolding 1 2 by (simp split: sum.splits)
qed

section \<open>What the rewriter changes, and when it raises\<close>



text \<open>
  C6. With a nonzero shift, a text that contains an occurrence \<open>m\<close> of the
  pattern whose timestamp \<^verbatim>\<open>strptime\<close> rejects makes the rewriter raise: the
  exception of the text before \<open>m\<close> if that part raises, otherwise the one
  \<^verbatim>\<open>strptime\<close> raised on \<open>m\<close>. \<^verbatim>\<open>save_gpx\<close> on a session with that text and that
  shift raises as well.
\<close>

theorem malformed_timestamp_raises:
  assumes "delta \<noteq> 0" and "match_prefix GPX_TIME_PATTERN m" and "length m = 33"
    and "strptime (group2 m) = Inl e"
  shows "shift_gpx_times (pre @ m @ post) delta =
           (case shift_gpx_times pre delta of Inl e' \<Rightarrow> Inl e' | Inr a \<Rightarrow> Inl e) \<and>
         (\<forall>s ov w. original_gpx_text s = pre @ m @ post \<and> time_shift s = delta \<longrightarrow>
            (\<exists>e'. fst (save_gpx ov s w) = Inl e'))"
proof -
  let ?f = "sub_replace delta"
  have fe: "?f m = Inl e" using assms(4) by (simp add: sub_replace_def)
  have mm: "match_prefix GPX_TIME_PATTERN (m @ post)"
    using assms(2) by (rule match_prefix_extend)
  have "\<forall>k<length pre. match_prefix GPX_TIME_PATTERN (drop k (pre @ m @ post)) \<longrightarrow>
          k + 33 \<le> length pre"
    using no_straddle_before_match [OF mm] by blast
  from re_sub_append [OF this, of ?f]
  have "re_sub ?f (pre @ m @ post) =
          (case re_sub ?f pre of Inl e' \<Rightarrow> Inl e' | Inr a \<Rightarrow> Inl e)"
    by (simp add: re_sub_head_error [where f = ?f, OF assms(2,3) fe] split: sum.splits)
  then have 1: "shift_gpx_times (pre @ m @ post) delta =
           (case shift_gpx_times pre delta of Inl e' \<Rightarrow> Inl e' | Inr a \<Rightarrow> Inl e)"
    using assms(1) by (simp add: shift_gpx_times_def)
  then have "\<exists>e'. shift_gpx_times (pre @ m @ post) delta = Inl e'"
    by (cases "shift_gpx_times pre delta") simp_all
  then have "\<forall>s ov w. original_gpx_text s = pre @ m @ post \<and> time_shift s = delta \<longrightarrow>
            (\<exists>e'. fst (save_gpx ov s w) = Inl e')"
    by (auto simp: save_gpx_def split: sum.splits)
  with 1 show ?thesis by simp
qed

theorem malformed_timestamp_raises_witness:
  "match_prefix GPX_TIME_PATTERN ''<time>2025-13-01T00:00:00Z</time>'' \<and>
   strptime (group2 ''<time>2025-13-01T00:00:00Z</time>'') = Inl ValueError \<and>
   shift_gpx_times
     (''<extensions>'' @ ''<time>2025-13-01T00:00:00Z</time>'' @ ''</extensions>'')
     3600000000 = Inl ValueError \<and>
   fst (save_gpx None ex_malformed_session ex_world) = Inl ValueError"
proof -
  have m: "match_prefix GPX_TIME_PATTERN ''<time>2025-13-01T00:00:00Z</time>''"
    by code_simp
  have l: "length ''<time>2025-13-01T00:00:00Z</time>'' = 33" by simp
  have s: "strptime (group2 ''<time>2025-13-01T00:00:00Z</time>'') = Inl ValueError"
    by code_simp
  have p: "shift_gpx_times ''<extensions>'' 3600000000 = Inr ''<extensions>''"
    by code_simp
  have d: "(3600000000::int) \<noteq> 0" by simp
  note t = malformed_timestamp_raises [OF d m l s, of "''<extensions>''" "''</extensions>''",
      unfolded p sum.case]
  from t have r: "shift_gpx_times
     (''<extensions>'' @ ''<time>2025-13-01T00:00:00Z</time>'' @ ''</extensions>'')
     3600000000 = Inl ValueError" ..
  have o: "output_path None ex_malformed_session ex_world =
             Inr (Path ''/tmp/morning_run_p1.gpx'')"
    by (simp add: output_path_def ex_malformed_session_def ex_session_def
        get_default_output_path_def get_shift_hours_def Path_def splitroot_def path_stem_def
        path_suffix_def path_name_def rfind_def with_name_def str_nat_small Let_def)
  have "shift_gpx_times (original_gpx_text ex_malformed_session)
          (time_shift ex_malformed_session) = Inl ValueError"
    unfolding ex_malformed_session_def ex_session_def using r by simp
  then have "fst (save_gpx None ex_malformed_session ex_world) = Inl ValueError"
    by (simp add: save_gpx_def o)
  with m s r show ?thesis by simp
qed

text \<open>
  C10. A \<^verbatim>\<open><time>\<close> element whose inner text holds no \<^verbatim>\<open><\<close> and is not of the
  shape \<^verbatim>\<open>YYYY-MM-DDTHH:MM:SSZ\<close> is copied as it is and raises nothing: the
  rewriter treats the text before it and the text after it on their own and puts
  the element between the two results unchanged.
\<close>

theorem unmatched_time_element_unchanged:
  assumes "CHR ''<'' \<notin> set inner" and "\<not> (length inner = 20 \<and> match_prefix time_fmt inner)"
  shows "shift_gpx_times (pre @ ''<time>'' @ inner @ ''</time>'' @ post) delta =
           (case shift_gpx_times pre delta of
              Inl e \<Rightarrow> Inl e
            | Inr pre' \<Rightarrow>
                (case shift_gpx_times post delta of
                   Inl e \<Rightarrow> Inl e
                 | Inr post' \<Rightarrow> Inr (pre' @ ''<time>'' @ inner @ ''</time>'' @ post')))"
proof (cases "delta = 0")
  case True
  then show ?thesis by (simp add: shift_gpx_times_def)
next
  case False
  let ?f = "sub_replace delta"
  let ?E = "''<time>'' @ inner @ ''</time>''"
  have lE: "length ?E = 13 + length inner" by simp
  have Ep: "?E @ post = ''<time>'' @ inner @ ''</time>'' @ post" by (simp only: append_assoc)
  have nm: "\<forall>k<length ?E. \<not> match_prefix GPX_TIME_PATTERN (drop k (?E @ post))"
    unfolding lE Ep using element_no_match [OF assms, of _ post] by blast
  have tag: "?E = CHR ''<'' # CHR ''t'' # (''ime>'' @ inner @ ''</time>'')" by simp
  have "re_sub ?f (pre @ ?E @ post) =
      (case re_sub ?f pre of
         Inl e \<Rightarrow> Inl e
       | Inr a \<Rightarrow> (case re_sub ?f post of Inl e \<Rightarrow> Inl e | Inr b \<Rightarrow> Inr (a @ ?E @ b)))"
    using nm tag by (rule element_unchanged_gen)
  then show ?thesis
    using False by (simp only: shift_gpx_times_def if_False append_assoc)
qed

theorem unmatched_time_element_unchanged_witness:
  "shift_gpx_times (ex_text @ ''<time>'' @ ''2025-01-01T00:00:00.500Z'' @ ''</time>'' @ [])
     10800000000 =
   Inr (''<trkpt><time>2025-01-01T03:00:00Z</time></trkpt>'' @
        ''<time>'' @ ''2025-01-01T00:00:00.500Z'' @ ''</time>'' @ []) \<and>
   shift_gpx_times ([] @ ''<time>'' @ ''2025-01-01T00:00:00+02:00'' @ ''</time>'' @ [])
     10800000000 =
   Inr ([] @ ''<time>'' @ ''2025-01-01T00:00:00+02:00'' @ ''</time>'' @ [])"
proof -
  have e: "shift_gpx_times [] 10800000000 = Inr []"
    by (simp add: shift_gpx_times_def)
  have a: "CHR ''<'' \<notin> set ''2025-01-01T00:00:00.500Z''"
    "\<not> (length ''2025-01-01T00:00:00.500Z'' = 20 \<and>
        match_prefix time_fmt ''2025-01-01T00:00:00.500Z'')"
    by simp_all
  have b: "CHR ''<'' \<notin> set ''2025-01-01T00:00:00+02:00''"
    "\<not> (length ''2025-01-01T00:00:00+02:00'' = 20 \<and>
        match_prefix time_fmt ''2025-01-01T00:00:00+02:00'')"
    by simp_all
  note w1 = unmatched_time_element_unchanged [OF a, of ex_text "[]" 10800000000,
      unfolded ex_shift3 e sum.case]
  note w2 = unmatched_time_element_unchanged [OF b, of "[]" "[]" 10800000000,
      unfolded e sum.case]
  from w1 w2 show ?thesis by (rule conjI)
qed

end
